theory Spec2Isabelle
  imports Main
begin

section \<open>Python strings\<close>

text \<open>
  Source text is a Python \<open>str\<close>.  It is modelled as a \<^typ>\<open>string\<close> whose characters are
  the code points below 256; the string methods the engine calls are written out below with
  the meaning CPython gives them on those code points.
\<close>

abbreviation LF :: char where "LF \<equiv> CHR 0x0A"
abbreviation CR :: char where "CR \<equiv> CHR 0x0D"
abbreviation SQUOTE :: char where "SQUOTE \<equiv> CHR 0x27"
abbreviation DQUOTE :: char where "DQUOTE \<equiv> CHR 0x22"
abbreviation BACKSLASH :: char where "BACKSLASH \<equiv> CHR 0x5C"

definition isspace :: "char \<Rightarrow> bool" where
  \<comment> \<open>\<open>str.isspace\<close>: TAB, LF, VT, FF, CR, FS, GS, RS, US, SPACE, NEL, NBSP\<close>
  "isspace c \<longleftrightarrow> c \<in> set [CHR 0x09, CHR 0x0A, CHR 0x0B, CHR 0x0C, CHR 0x0D,
       CHR 0x1C, CHR 0x1D, CHR 0x1E, CHR 0x1F, CHR 0x20, CHR 0x85, CHR 0xA0]"

definition lstrip :: "string \<Rightarrow> string" where
  "lstrip s = dropWhile isspace s"

definition rstrip :: "string \<Rightarrow> string" where
  "rstrip s = rev (dropWhile isspace (rev s))"

definition strip :: "string \<Rightarrow> string" where
  "strip s = lstrip (rstrip s)"

fun startswith :: "string \<Rightarrow> string \<Rightarrow> bool" where
  "startswith s [] = True"
| "startswith [] (p # ps) = False"
| "startswith (c # cs) (p # ps) = (c = p \<and> startswith cs ps)"

definition endswith :: "string \<Rightarrow> string \<Rightarrow> bool" where
  "endswith s p = startswith (rev s) (rev p)"

fun contains :: "string \<Rightarrow> string \<Rightarrow> bool" where
  \<comment> \<open>\<open>contains sub s\<close> is Python's \<open>sub in s\<close>\<close>
  "contains sub [] = (sub = [])"
| "contains sub (c # cs) = (startswith (c # cs) sub \<or> contains sub cs)"

definition lower_char :: "char \<Rightarrow> char" where
  "lower_char c =
     (let n = (of_char c :: nat)
      in if (65 \<le> n \<and> n \<le> 90) \<or> (192 \<le> n \<and> n \<le> 222 \<and> n \<noteq> 215)
         then char_of (n + 32) else c)"

definition lower :: "string \<Rightarrow> string" where
  "lower s = map lower_char s"

fun replace_crlf :: "string \<Rightarrow> string" where
  \<comment> \<open>\<open>s.replace("\r\n", "\n")\<close>\<close>
  "replace_crlf [] = []"
| "replace_crlf [c] = [c]"
| "replace_crlf (c # d # cs) =
     (if c = CR \<and> d = LF then LF # replace_crlf cs else c # replace_crlf (d # cs))"

fun split_nl :: "string \<Rightarrow> string list" where
  \<comment> \<open>\<open>s.split("\n")\<close>: never empty, a final LF gives a final empty piece\<close>
  "split_nl [] = [Nil]"
| "split_nl (c # cs) =
     (if c = LF then [] # split_nl cs
      else (case split_nl cs of [] \<Rightarrow> [c # Nil] | l # ls \<Rightarrow> (c # l) # ls))"

fun join :: "string \<Rightarrow> string list \<Rightarrow> string" where
  \<comment> \<open>\<open>sep.join(xs)\<close>\<close>
  "join sep [] = []"
| "join sep [x] = x"
| "join sep (x # y # ys) = x @ sep @ join sep (y # ys)"

abbreviation join_nl :: "string list \<Rightarrow> string" where
  "join_nl \<equiv> join [LF]"

definition is_linebreak :: "char \<Rightarrow> bool" where
  \<comment> \<open>the line boundaries of \<open>str.splitlines\<close> other than CR: LF, VT, FF, FS, GS, RS, NEL\<close>
  "is_linebreak c \<longleftrightarrow> c \<in> set [CHR 0x0A, CHR 0x0B, CHR 0x0C, CHR 0x1C, CHR 0x1D, CHR 0x1E, CHR 0x85]"

fun splitlines_from :: "string \<Rightarrow> string \<Rightarrow> string list" where
  \<comment> \<open>\<open>splitlines_from acc s\<close>: the lines of \<open>s\<close>, the current line being \<open>rev acc\<close> so far\<close>
  "splitlines_from acc [] = (if acc = [] then [] else [rev acc])"
| "splitlines_from acc [c] =
     (if c = CR \<or> is_linebreak c then [rev acc] else [rev (c # acc)])"
| "splitlines_from acc (c # d # cs) =
     (if c = CR \<and> d = LF then rev acc # splitlines_from [] cs
      else if c = CR \<or> is_linebreak c then rev acc # splitlines_from [] (d # cs)
      else splitlines_from (c # acc) (d # cs))"

definition splitlines :: "string \<Rightarrow> string list" where
  "splitlines s = splitlines_from [] s"

section \<open>Error taxonomy and parser\<close>

text \<open>
  Modelled from the spec: \<open>errors/error_types.py\<close>, which declares \<open>ErrorType\<close>, is not among
  the sources.  The members are the spec's closed enumeration of error kinds, and
  \<open>ARITHMETIC\<close>, which \<open>errors/error_classifier.py\<close> names.
\<close>

datatype ErrorType =
    NONE | SYNTAX | NAME | INDEX | KEY | ATTRIBUTE | VALUE | IMPORT | TYPE_ERR | ZERO_DIVISION
  | RECURSION | RUNTIME | LOGICAL | FILE | PARSE | REGEX | ENCODING | NETWORK | SYSTEM
  | MEMORY | UNKNOWN | ARITHMETIC

text \<open>\<open>errors/error_parser.py\<close>, \<open>parse_error(stderr, code, language)\<close>.\<close>

definition parse_error :: "string \<Rightarrow> string \<Rightarrow> string \<Rightarrow> ErrorType \<times> string" where
  "parse_error stderr code language =
    (let language = lower (if language = [] then ''python'' else language);
         text = stderr
     in
     if language = ''python'' then
       (if strip text = [] then (NONE, [])
        else if contains ''SyntaxError'' text then (SYNTAX, text)
        else if contains ''NameError'' text then (NAME, text)
        else if contains ''IndexError'' text then (INDEX, text)
        else if contains ''KeyError'' text then (KEY, text)
        else if contains ''AttributeError'' text then (ATTRIBUTE, text)
        else if contains ''ZeroDivisionError'' text then (ZERO_DIVISION, text)
        else if contains ''RecursionError'' text then (RECURSION, text)
        else if contains ''Traceback'' text then (RUNTIME, text)
        else (RUNTIME, text))
     else if language \<in> set [''js'', ''javascript'', ''node''] then
       (if strip text = [] then (NONE, [])
        else if contains ''SyntaxError'' text then (SYNTAX, text)
        else if contains ''ReferenceError'' text then (NAME, text)
        else if contains ''TypeError'' text then (TYPE_ERR, text)
        else if contains ''RangeError'' text then (INDEX, text)
        else if contains ''unexpected token'' (lower text) then (SYNTAX, text)
        else if contains ''is not defined'' (lower text) then (NAME, text)
        else (RUNTIME, text))
     else if language = ''java'' then
       (if strip text = [] then (NONE, [])
        else if contains ''error:'' text then (SYNTAX, text)
        else if contains ''NullPointerException'' text then (ATTRIBUTE, text)
        else if contains ''ArrayIndexOutOfBoundsException'' text then (INDEX, text)
        else if contains ''cannot find symbol'' text then (NAME, text)
        else if contains ''Exception in thread'' text then (RUNTIME, text)
        else (RUNTIME, text))
     else (RUNTIME, text))"

definition known_error_tokens :: "string list" where
  \<comment> \<open>the tokens the primary-language branch of \<open>parse_error\<close> looks for, in its order\<close>
  "known_error_tokens = [''SyntaxError'', ''NameError'', ''IndexError'', ''KeyError'',
     ''AttributeError'', ''ZeroDivisionError'', ''RecursionError'']"

definition unrecognised :: "string \<Rightarrow> bool" where
  "unrecognised text \<longleftrightarrow> list_all (\<lambda>tok. \<not> contains tok text) known_error_tokens"

section \<open>The Python library\<close>

text \<open>
  The engine reaches CPython's \<open>ast\<close>, \<open>re\<close> and \<open>difflib\<close> modules.  They are not part of the
  repository; the model takes them as a parameter, a record of the functions called.  A parsed
  module is kept as far as the engine inspects it.
\<close>

datatype node =
    FunctionDef string "node list"
  | AsyncFunctionDef string "node list"
  | ClassDef string "node list"
  | Assign "node list" "node list"
  | Name string
  | Import "string list"
  | ImportFrom "string option"
  | Other "node list"

fun iter_child_nodes :: "node \<Rightarrow> node list" where
  "iter_child_nodes (FunctionDef n cs) = cs"
| "iter_child_nodes (AsyncFunctionDef n cs) = cs"
| "iter_child_nodes (ClassDef n cs) = cs"
| "iter_child_nodes (Assign ts cs) = ts @ cs"
| "iter_child_nodes (Name n) = []"
| "iter_child_nodes (Import ns) = []"
| "iter_child_nodes (ImportFrom m) = []"
| "iter_child_nodes (Other cs) = cs"

function walk :: "node list \<Rightarrow> node list" where
  \<comment> \<open>\<open>ast.walk\<close>: breadth first, \<open>todo\<close> is the queue\<close>
  "walk [] = []"
| "walk (n # todo) = n # walk (todo @ iter_child_nodes n)"
  by pat_completeness auto
termination
proof (relation "measure (\<lambda>todo. sum_list (map (\<lambda>c. Suc (size c)) todo))")
  show "wf (measure (\<lambda>todo. sum_list (map (\<lambda>c. Suc (size c)) todo)))"
    by simp
next
  fix n :: node and todo :: "node list"
  have eq: "sum_list (map (\<lambda>c. Suc (size c)) cs) = size_list size cs" for cs :: "node list"
    by (induction cs) auto
  have "sum_list (map (\<lambda>c. Suc (size c)) (iter_child_nodes n)) < Suc (size n)"
    by (cases n) (auto simp: eq)
  then show "(todo @ iter_child_nodes n, n # todo)
          \<in> measure (\<lambda>todo. sum_list (map (\<lambda>c. Suc (size c)) todo))"
    by simp
qed

text \<open>
  A regular expression is named by the place it is written at; \<open>re\<close> is given the name.

  \<open>fixer/merge_strategy.py\<close>:
  \<^item> \<open>CODE_LINE\<close>: \<^verbatim>\<open>^\s*(def |class |import |from |[A-Za-z_]\w*\s*=|if |for |while |async def )\<close>
  \<^item> \<open>DEF_BLOCK name\<close>:
    \<^verbatim>\<open>(?:^|\n)(?:async\s+def|def|class)\s+{re.escape(name)}\b[^\n]*:\n(?:\s+.*\n)+\<close>;
    \<open>DEF_BLOCK_M name\<close> is the same under \<open>re.MULTILINE\<close>
  \<^item> \<open>ANY_DEF_BLOCK_M\<close>:
    \<^verbatim>\<open>(?:^|\n)((?:async\s+def|def|class)\s+[A-Za-z_]\w*[^\n]*:\n(?:\s+.*\n)+)\<close>
    under \<open>re.MULTILINE\<close>
  \<^item> \<open>DEF_HEAD\<close>: \<^verbatim>\<open>(?:async\s+def|def|class)\s+([A-Za-z_]\w*)\<close>

  \<open>fixer/llm_fixer.py\<close>:
  \<^item> \<open>FENCE_NL\<close>: \<^verbatim>\<open>```(?:python)?\n(.*?)```\<close> under \<open>re.S | re.I\<close>
  \<^item> \<open>LEADING_COMMENT\<close>: \<^verbatim>\<open>^\s*#.*\n+\<close>
  \<^item> \<open>PROSE_PREFIX\<close>: \<^verbatim>\<open>^[A-Za-z ,\-\(\)\"']+:\s*\<close>
  \<^item> \<open>OPEN_FENCE\<close>: \<^verbatim>\<open>^```(?:python)?\n?\<close>
  \<^item> \<open>CLOSE_FENCE\<close>: \<^verbatim>\<open>\n?```$\<close>

  \<open>iterations/iteration_controller.py\<close>:
  \<^item> \<open>FENCE_PY\<close>: \<^verbatim>\<open>```(?:python)?\s*(.*?)```\<close> under \<open>re.DOTALL | re.IGNORECASE\<close>
  \<^item> \<open>FENCE_RAW\<close>: \<^verbatim>\<open>```(.*?)```\<close> under \<open>re.DOTALL\<close>
  \<^item> \<open>INDENTED_BLOCK\<close>: \<^verbatim>\<open>(?:\n(?: {4}|\t).+)+\<close>
  \<^item> \<open>PREORDER_AFTER\<close>: \<^verbatim>\<open>preorder\s*\(.*left.*\).*preorder\s*\(.*right.*\).*append\<close>
    under \<open>re.DOTALL\<close>
  \<^item> \<open>PREORDER_BETWEEN\<close>: \<^verbatim>\<open>preorder\s*\(.*left.*\).*append.*preorder\s*\(.*right.*\)\<close>
    under \<open>re.DOTALL\<close>
  \<^item> \<open>INORDER_LNR\<close>: \<^verbatim>\<open>left.*append.*right\<close> under \<open>re.DOTALL\<close>
  \<^item> \<open>POSTORDER_APPEND\<close>: \<^verbatim>\<open>append.*(left|right)\<close>
  \<^item> \<open>MID_DIVISION\<close>: \<^verbatim>\<open>mid\s*=\s*\(?.*left.*\+.*right.*\)?\s*/\s*2\<close>
  \<^item> \<open>LEFT_MID\<close>: \<^verbatim>\<open>left\s*=\s*mid\s*(?!\+|\-)\<close>
  \<^item> \<open>RIGHT_MID\<close>: \<^verbatim>\<open>right\s*=\s*mid\s*(?!\+|\-)\<close>
  \<^item> \<open>PATCH p\<close>: the pattern \<open>p\<close> of a suggested patch

  \<open>fixer/ast_fixer.py\<close>:
  \<^item> \<open>BRACKETED\<close>: \<^verbatim>\<open>\[(.*?)\]\<close>
  \<^item> \<open>LIST_TOKEN\<close>: \<^verbatim>\<open>^[\w\(\)\+\-\*/]+$\<close>
  \<^item> \<open>INCOMPLETE_CALL\<close>: \<^verbatim>\<open>(\w+)\($\<close>
  \<^item> \<open>BARE_ASSIGN\<close>: \<^verbatim>\<open>(\w+)\s*=\s*$\<close>
  \<^item> \<open>TRAILING_OP\<close>: \<^verbatim>\<open>([+\-*/%]|and|or|==|!=)\s*$\<close>
  \<^item> \<open>EMPTY_ITEM\<close>: \<^verbatim>\<open>,\s*,\<close>
\<close>

datatype pattern =
    CODE_LINE | DEF_BLOCK string | DEF_BLOCK_M string | ANY_DEF_BLOCK_M | DEF_HEAD
  | FENCE_NL | LEADING_COMMENT | PROSE_PREFIX | OPEN_FENCE | CLOSE_FENCE
  | FENCE_PY | FENCE_RAW | INDENTED_BLOCK | PREORDER_AFTER | PREORDER_BETWEEN | INORDER_LNR
  | POSTORDER_APPEND | MID_DIVISION | LEFT_MID | RIGHT_MID | PATCH string
  | BRACKETED | LIST_TOKEN | INCOMPLETE_CALL | BARE_ASSIGN | TRAILING_OP | EMPTY_ITEM

record python =
  ast_parse :: "string \<Rightarrow> node list option"
    \<comment> \<open>\<open>ast.parse(code).body\<close>; \<open>None\<close> when \<open>ast.parse\<close> raises\<close>
  get_source_segment :: "string \<Rightarrow> nat \<Rightarrow> string option"
    \<comment> \<open>\<open>ast.get_source_segment\<close> of the statement at an index of the module body;
        \<open>None\<close> when it raises or returns \<open>None\<close>\<close>
  re_test :: "pattern \<Rightarrow> string \<Rightarrow> bool"
    \<comment> \<open>whether \<open>re.match\<close> (\<open>CODE_LINE\<close>, \<open>LIST_TOKEN\<close>) or \<open>re.search\<close> finds a match\<close>
  re_group :: "pattern \<Rightarrow> string \<Rightarrow> string option"
    \<comment> \<open>the text of the first match: of its group when the pattern has one\<close>
  re_findall :: "pattern \<Rightarrow> string \<Rightarrow> string list"
  re_sub :: "pattern \<Rightarrow> string \<Rightarrow> string \<Rightarrow> nat \<Rightarrow> string option"
    \<comment> \<open>\<open>re.sub(pattern, repl, target, count)\<close>, count 0 for every match; \<open>None\<close> when \<open>re\<close>
        raises on the pattern or on the replacement template\<close>
  re_pieces :: "pattern \<Rightarrow> string \<Rightarrow> (string \<times> string) list \<times> string"
    \<comment> \<open>the target cut at its matches: each match with the text before it, and the rest\<close>
  ndiff :: "string list \<Rightarrow> string list \<Rightarrow> string list"
    \<comment> \<open>\<open>difflib.ndiff\<close>: rows that begin with a two-character tag\<close>

text \<open>
  The collaborators: the sandboxed executor, the language model and the logical detector.
  Their answer may change from one call to the next; the first argument is the time of the
  call.
\<close>

record patch =
  patch_kind :: string
  patch_pattern :: string
  patch_replacement :: string

record issue =
  issue_type :: string
  message :: string
  suggested_patch :: "patch option"

record world =
  run_in_sandbox :: "nat \<Rightarrow> string \<Rightarrow> string \<times> string"
    \<comment> \<open>\<open>(stdout, stderr)\<close>\<close>
  qwen_generate :: "nat \<Rightarrow> string \<Rightarrow> int option \<Rightarrow> string option"
    \<comment> \<open>the model's text for a prompt and \<open>max_tokens\<close>; \<open>None\<close> when the backend raises\<close>
  inspect_and_test :: "nat \<Rightarrow> string \<Rightarrow> issue list"
    \<comment> \<open>the \<open>issues\<close> of \<open>fixer.logical_detector.inspect_and_test(code)\<close>\<close>

section \<open>Merge strategy\<close>

text \<open>\<open>fixer/merge_strategy.py\<close>.\<close>

definition MAX_ADDED_TOPLEVEL_DEFS :: nat where "MAX_ADDED_TOPLEVEL_DEFS = 12"
definition MAX_ADDED_IMPORTS :: nat where "MAX_ADDED_IMPORTS = 8"

definition shrink_limit :: "nat \<Rightarrow> nat" where
  \<comment> \<open>\<open>int(base_lines * SHRINK_THRESHOLD)\<close> with \<open>SHRINK_THRESHOLD = 0.75\<close>: the product is
      exact in double precision for every line count below \<open>2^51\<close>, and \<open>int\<close> truncates\<close>
  "shrink_limit base_lines = (3 * base_lines) div 4"

definition parse_ok :: "python \<Rightarrow> string \<Rightarrow> bool" where
  "parse_ok py code \<longleftrightarrow> ast_parse py code \<noteq> None"

fun target_ids :: "node list \<Rightarrow> string list" where
  "target_ids [] = []"
| "target_ids (Name n # ts) = n # target_ids ts"
| "target_ids (t # ts) = target_ids ts"

fun node_names :: "node \<Rightarrow> string list" where
  "node_names (FunctionDef n cs) = [n]"
| "node_names (AsyncFunctionDef n cs) = [n]"
| "node_names (ClassDef n cs) = [n]"
| "node_names (Assign ts cs) = target_ids ts"
| "node_names n = []"

definition top_level_names :: "python \<Rightarrow> string \<Rightarrow> string list" where
  "top_level_names py code =
     (case ast_parse py code of None \<Rightarrow> [] | Some body \<Rightarrow> concat (map node_names body))"

definition module_root :: "string \<Rightarrow> string" where
  \<comment> \<open>\<open>name.split(".")[0]\<close>\<close>
  "module_root name = takeWhile (\<lambda>c. c \<noteq> CHR ''.'') name"

fun node_imports :: "node \<Rightarrow> string list" where
  "node_imports (Import names) = map module_root names"
| "node_imports (ImportFrom module) =
     (case module of None \<Rightarrow> [] | Some m \<Rightarrow> if m = [] then [] else [module_root m])"
| "node_imports n = []"

definition imports_from_code :: "python \<Rightarrow> string \<Rightarrow> string list" where
  "imports_from_code py code =
     (case ast_parse py code of None \<Rightarrow> [] | Some body \<Rightarrow> concat (map node_imports (walk body)))"

fun first_code_line :: "python \<Rightarrow> nat \<Rightarrow> string list \<Rightarrow> string list option" where
  \<comment> \<open>the lines from the first of the leading \<open>n\<close> lines that \<open>CODE_LINE\<close> matches\<close>
  "first_code_line py 0 lines = None"
| "first_code_line py (Suc n) [] = None"
| "first_code_line py (Suc n) (ln # lines) =
     (if re_test py CODE_LINE ln then Some (ln # lines) else first_code_line py n lines)"

definition strip_non_code_prefix :: "python \<Rightarrow> string \<Rightarrow> string" where
  "strip_non_code_prefix py s =
     (case first_code_line py 40 (splitlines s) of Some rest \<Rightarrow> join_nl rest | None \<Rightarrow> s)"

definition count_lines :: "string \<Rightarrow> nat" where
  "count_lines s = (if s = [] then 0 else length (splitlines s))"

fun def_name :: "node \<Rightarrow> string option" where
  "def_name (FunctionDef n cs) = Some n"
| "def_name (AsyncFunctionDef n cs) = Some n"
| "def_name (ClassDef n cs) = Some n"
| "def_name n = None"

definition get_source_segment_for_node :: "python \<Rightarrow> string \<Rightarrow> nat \<times> node \<Rightarrow> string option" where
  "get_source_segment_for_node py code inode =
     (case get_source_segment py code (fst inode) of
        Some segment \<Rightarrow>
          if segment \<noteq> [] then Some segment
          else (case def_name (snd inode) of None \<Rightarrow> None
                | Some name \<Rightarrow> re_group py (DEF_BLOCK name) code)
      | None \<Rightarrow>
          (case def_name (snd inode) of None \<Rightarrow> None
           | Some name \<Rightarrow> re_group py (DEF_BLOCK name) code))"

definition safe_replace_first :: "python \<Rightarrow> string \<Rightarrow> string \<Rightarrow> string \<Rightarrow> string option" where
  "safe_replace_first py target name replacement = re_sub py (DEF_BLOCK_M name) replacement target 1"

text \<open>
  The loops of \<open>merge_llm_result\<close> thread the text merged so far and the flag that a
  substitution was kept.  A loop is \<open>None\<close> when \<open>re.sub\<close> raises in it.
\<close>

fun replace_parsed_defs ::
  "python \<Rightarrow> string \<Rightarrow> (nat \<times> node) list \<Rightarrow> string \<times> bool \<Rightarrow> (string \<times> bool) option" where
  "replace_parsed_defs py candidate [] st = Some st"
| "replace_parsed_defs py candidate (inode # rest) (merged, replaced_any) =
     (case def_name (snd inode) of
        None \<Rightarrow> replace_parsed_defs py candidate rest (merged, replaced_any)
      | Some name \<Rightarrow>
          (case get_source_segment_for_node py candidate inode of
             None \<Rightarrow> replace_parsed_defs py candidate rest (merged, replaced_any)
           | Some src_node \<Rightarrow>
               if src_node = [] \<or> \<not> parse_ok py src_node
               then replace_parsed_defs py candidate rest (merged, replaced_any)
               else if re_test py (DEF_BLOCK_M name) merged then
                 (case safe_replace_first py merged name ([LF] @ src_node @ [LF]) of
                    None \<Rightarrow> None
                  | Some merged_candidate \<Rightarrow>
                      if parse_ok py merged_candidate
                      then replace_parsed_defs py candidate rest (merged_candidate, True)
                      else replace_parsed_defs py candidate rest (merged, replaced_any))
               else replace_parsed_defs py candidate rest (merged, replaced_any)))"

fun replace_blocks :: "python \<Rightarrow> string list \<Rightarrow> string \<times> bool \<Rightarrow> (string \<times> bool) option" where
  "replace_blocks py [] st = Some st"
| "replace_blocks py (blk # blocks) (tmp, replaced_any) =
     (case re_group py DEF_HEAD blk of
        None \<Rightarrow> replace_blocks py blocks (tmp, replaced_any)
      | Some name \<Rightarrow>
          if re_test py (DEF_BLOCK_M name) tmp then
            (case safe_replace_first py tmp name ([LF] @ blk @ [LF]) of
               None \<Rightarrow> None
             | Some merged_candidate \<Rightarrow>
                 if parse_ok py merged_candidate
                 then replace_blocks py blocks (merged_candidate, True)
                 else replace_blocks py blocks (tmp, replaced_any))
          else replace_blocks py blocks (tmp, replaced_any))"

text \<open>
  \<open>merge_llm_result\<close> returns a string and logs which branch it took.  The model returns the
  branch with the string; \<open>None\<close> is an exception leaving the function.
\<close>

datatype verdict =
    EmptyOutput | ShrinkRejected | AdditionsRejected | AdoptedFull | BaseUnparseable
  | PartialParsed | PartialRegex | RewriteRejected | RewriteAccepted | FellBack

definition full_rewrite :: "python \<Rightarrow> string \<Rightarrow> string \<Rightarrow> bool \<Rightarrow> (verdict \<times> string) option" where
  \<comment> \<open>steps 4 and 5\<close>
  "full_rewrite py base llm_out allow_full_rewrite =
     (if allow_full_rewrite then
        (let blocks = re_findall py ANY_DEF_BLOCK_M llm_out in
         if blocks \<noteq> [] then
           (case replace_blocks py blocks (base, False) of
              None \<Rightarrow> None
            | Some (tmp, changed) \<Rightarrow>
                if changed \<and> parse_ok py tmp then
                  (let added = set (top_level_names py tmp) - set (top_level_names py base);
                       new_imports = set (imports_from_code py tmp) - set (imports_from_code py base)
                   in if card added > MAX_ADDED_TOPLEVEL_DEFS \<or> card new_imports > MAX_ADDED_IMPORTS
                      then Some (RewriteRejected, base)
                      else Some (RewriteAccepted, tmp))
                else Some (FellBack, base))
         else Some (FellBack, base))
      else Some (FellBack, base))"

definition regex_merge ::
  "python \<Rightarrow> string \<Rightarrow> string \<Rightarrow> string \<Rightarrow> string \<Rightarrow> bool \<Rightarrow> (verdict \<times> string) option" where
  \<comment> \<open>step 3, then steps 4 and 5\<close>
  "regex_merge py base llm_out candidate merged allow_full_rewrite =
     (let blocks = re_findall py ANY_DEF_BLOCK_M candidate in
      if blocks \<noteq> [] then
        (case replace_blocks py blocks (merged, False) of
           None \<Rightarrow> full_rewrite py base llm_out allow_full_rewrite
         | Some (tmp, replaced_any) \<Rightarrow>
             if replaced_any \<and> parse_ok py tmp then Some (PartialRegex, tmp)
             else full_rewrite py base llm_out allow_full_rewrite)
      else full_rewrite py base llm_out allow_full_rewrite)"

definition candidate_of :: "python \<Rightarrow> string \<Rightarrow> string" where
  \<comment> \<open>\<open>candidate = _strip_non_code_prefix(llm_out).strip()\<close>\<close>
  "candidate_of py llm_out = strip (strip_non_code_prefix py llm_out)"

definition merge_llm_result_logged ::
  "python \<Rightarrow> string \<Rightarrow> string \<Rightarrow> bool \<Rightarrow> (verdict \<times> string) option" where
  "merge_llm_result_logged py base llm_out allow_full_rewrite =
     (if llm_out = [] then Some (EmptyOutput, base)
      else
        let candidate = candidate_of py llm_out;
            base_lines = count_lines base;
            cand_lines = count_lines candidate
        in
        if parse_ok py candidate then
          (let added_defs = set (top_level_names py candidate) - set (top_level_names py base);
               new_imports = set (imports_from_code py candidate) - set (imports_from_code py base)
           in if base_lines > 0 \<and> cand_lines < max 1 (shrink_limit base_lines)
              then Some (ShrinkRejected, base)
              else if card added_defs > MAX_ADDED_TOPLEVEL_DEFS \<or> card new_imports > MAX_ADDED_IMPORTS
              then Some (AdditionsRejected, base)
              else Some (AdoptedFull, candidate))
        else if \<not> parse_ok py base then Some (BaseUnparseable, base)
        else
          (case ast_parse py candidate of
             Some body \<Rightarrow>
               (case replace_parsed_defs py candidate (enumerate 0 body) (base, False) of
                  None \<Rightarrow> None
                | Some (merged, replaced_any) \<Rightarrow>
                    if replaced_any \<and> parse_ok py merged then Some (PartialParsed, merged)
                    else regex_merge py base llm_out candidate merged allow_full_rewrite)
           | None \<Rightarrow> regex_merge py base llm_out candidate base allow_full_rewrite))"

definition merge_llm_result :: "python \<Rightarrow> string \<Rightarrow> string \<Rightarrow> bool \<Rightarrow> string option" where
  "merge_llm_result py base llm_out allow_full_rewrite =
     map_option snd (merge_llm_result_logged py base llm_out allow_full_rewrite)"

definition rejected :: "verdict \<Rightarrow> bool" where
  "rejected v \<longleftrightarrow> v \<in> set [EmptyOutput, ShrinkRejected, AdditionsRejected, BaseUnparseable,
                         RewriteRejected, FellBack]"

section \<open>Generative fixer\<close>

text \<open>\<open>fixer/llm_fixer.py\<close>.\<close>

definition MAX_OUTPUT_CHARS :: nat where "MAX_OUTPUT_CHARS = 20000"

definition is_valid_python :: "python \<Rightarrow> string \<Rightarrow> bool" where
  "is_valid_python py code \<longleftrightarrow> ast_parse py code \<noteq> None"

definition block_spans :: "nat \<Rightarrow> (nat \<times> nat) list" where
  \<comment> \<open>the pairs \<open>(i, j)\<close> of the two loops over \<open>n\<close> lines, in their order\<close>
  "block_spans n = concat (map (\<lambda>i. map (\<lambda>j. (i, j)) [i + 1 ..< min n (i + 200) + 1]) [0 ..< n])"

definition better_block :: "python \<Rightarrow> string list \<Rightarrow> string \<Rightarrow> nat \<times> nat \<Rightarrow> string" where
  "better_block py lines best ij =
     (let block = strip (join_nl (take (snd ij - fst ij) (drop (fst ij) lines)))
      in if length block < 10 then best
         else if is_valid_python py block \<and> length block > length best then block
         else best)"

text \<open>
  The functions below run inside the \<open>try\<close> of \<open>generate_llm_fix\<close>; they are \<open>None\<close> when \<open>re\<close>
  raises.
\<close>

definition extract_code_from_text :: "python \<Rightarrow> string \<Rightarrow> string option" where
  "extract_code_from_text py text =
     (if text = [] then Some []
      else
        let fenced =
              (case re_group py FENCE_NL text of
                 None \<Rightarrow> Some None
               | Some inner \<Rightarrow>
                   (let candidate = strip inner in
                    if is_valid_python py candidate then Some (Some (candidate @ [LF]))
                    else (case re_sub py LEADING_COMMENT [] candidate 0 of
                            None \<Rightarrow> None
                          | Some candidate2 \<Rightarrow>
                              if is_valid_python py candidate2 then Some (Some (candidate2 @ [LF]))
                              else Some None)))
        in case fenced of
             None \<Rightarrow> None
           | Some (Some code) \<Rightarrow> Some code
           | Some None \<Rightarrow>
               (let lines = splitlines text;
                    best = foldl (better_block py lines) [] (block_spans (length lines))
                in if best \<noteq> [] then Some (best @ [LF])
                   else (case re_sub py PROSE_PREFIX [] text 0 of
                           None \<Rightarrow> None
                         | Some stripped \<Rightarrow>
                             (let cleaned = strip stripped in
                              if is_valid_python py cleaned then Some (cleaned @ [LF])
                              else Some (take MAX_OUTPUT_CHARS (strip text))))))"

definition clean_llm_code :: "python \<Rightarrow> string \<Rightarrow> string option" where
  "clean_llm_code py text =
     (if text = [] then Some []
      else
        case re_sub py OPEN_FENCE [] (replace_crlf text) 0 of
          None \<Rightarrow> None
        | Some text1 \<Rightarrow>
            (case re_sub py CLOSE_FENCE [] text1 0 of
               None \<Rightarrow> None
             | Some text2 \<Rightarrow>
                 (case extract_code_from_text py (strip text2) of
                    None \<Rightarrow> None
                  | Some extracted \<Rightarrow>
                      Some (if endswith extracted [LF] then extracted
                            else extracted @ (if extracted \<noteq> [] then [LF] else [])))))"

definition issue_line :: "issue \<Rightarrow> string" where
  \<comment> \<open>\<open>f"- {it.get('issue_type')}: {it.get('message')}"\<close>\<close>
  "issue_line it = ''- '' @ issue_type it @ '': '' @ message it"

definition PROMPT_TEMPLATE :: "string \<Rightarrow> string \<Rightarrow> string \<Rightarrow> string \<Rightarrow> string" where
  \<comment> \<open>\<open>_PROMPT_TEMPLATE.format(code=, error=, logic=, user_instructions=)\<close>\<close>
  "PROMPT_TEMPLATE code error logic user_instructions =
     ''You are a local code assistant. The user provided the following code:\<newline>\<newline>###\<newline>''
     @ code
     @ ''\<newline>###\<newline>\<newline>It produced this error:\<newline>\<newline>###\<newline>''
     @ error
     @ ''\<newline>###\<newline>\<newline>Detected logical issues (if any):\<newline>###\<newline>''
     @ logic
     @ ''\<newline>###\<newline>\<newline>User instructions:\<newline>''
     @ user_instructions
     @ ''\<newline>\<newline>Please return only the corrected Python file contents (no explanation, no markdown, no fences).\<newline>If you cannot safely fix the program, return an empty string.\<newline>''"

definition checked_output :: "python \<Rightarrow> string \<Rightarrow> string" where
  \<comment> \<open>the \<open>try\<close> block of \<open>generate_llm_fix\<close> from the point where the backend has returned
      \<open>raw\<close>\<close>
  "checked_output py raw =
     (if raw = [] then []
      else
        (case clean_llm_code py raw of
           None \<Rightarrow> []
         | Some cleaned \<Rightarrow>
             if cleaned \<noteq> [] \<and> is_valid_python py cleaned then cleaned
             else
               (case extract_code_from_text py raw of
                  None \<Rightarrow> []
                | Some candidate \<Rightarrow>
                    if candidate \<noteq> [] \<and> is_valid_python py candidate then candidate
                    else if is_valid_python py raw then raw
                    else [])))"

definition llm_prompt :: "string \<Rightarrow> string \<Rightarrow> string \<Rightarrow> issue list \<Rightarrow> string" where
  "llm_prompt code error_message user_prompt logic_issues =
     (let logic_text = (if logic_issues \<noteq> [] then join_nl (map issue_line (take 6 logic_issues)) else [])
      in PROMPT_TEMPLATE code (if error_message = [] then ''<none>'' else error_message)
           logic_text user_prompt)"

definition generate_llm_fix ::
  "python \<Rightarrow> world \<Rightarrow> nat \<Rightarrow> string \<Rightarrow> string \<Rightarrow> string \<Rightarrow> issue list \<Rightarrow> int option \<Rightarrow> string" where
  "generate_llm_fix py w now code error_message user_prompt logic_issues max_tokens =
     (case qwen_generate w now (llm_prompt code error_message user_prompt logic_issues) max_tokens of
        None \<Rightarrow> []
      | Some raw \<Rightarrow> checked_output py raw)"

section \<open>Structural semantic repair\<close>

text \<open>\<open>fixer/ssr_fixer.py\<close>.\<close>

definition OPENERS :: "char \<Rightarrow> char option" where
  "OPENERS c = (if c = CHR ''['' then Some (CHR '']'')
                else if c = CHR ''('' then Some (CHR '')'')
                else if c = CHR ''{'' then Some (CHR ''}'')
                else None)"

definition is_opener :: "char \<Rightarrow> bool" where
  "is_opener c \<longleftrightarrow> OPENERS c \<noteq> None"

definition is_closer :: "char \<Rightarrow> bool" where
  \<comment> \<open>\<open>c in OPENERS.values()\<close>\<close>
  "is_closer c \<longleftrightarrow> c \<in> set [CHR '']'', CHR '')'', CHR ''}'']"

text \<open>A stack is a list with its top at the head.\<close>

fun scan_line :: "(nat \<times> char) list \<Rightarrow> nat \<Rightarrow> string \<Rightarrow> (nat \<times> char) list" where
  "scan_line stack i [] = stack"
| "scan_line stack i (ch # rest) =
     (if is_opener ch then scan_line ((i, ch) # stack) (Suc i) rest
      else if is_closer ch then
        (case stack of
           [] \<Rightarrow> scan_line stack (Suc i) rest
         | tp # below \<Rightarrow>
             if OPENERS (snd tp) = Some ch then scan_line below (Suc i) rest
             else scan_line stack (Suc i) rest)
      else scan_line stack (Suc i) rest)"

definition first_unclosed_opener_in_line :: "string \<Rightarrow> (nat \<times> char) option" where
  "first_unclosed_opener_in_line line =
     (case scan_line [] 0 line of [] \<Rightarrow> None | tp # below \<Rightarrow> Some (last (tp # below)))"

definition is_ident_start :: "char \<Rightarrow> bool" where
  \<comment> \<open>\<^verbatim>\<open>[A-Za-z_]\<close>\<close>
  "is_ident_start c \<longleftrightarrow>
     (let n = (of_char c :: nat) in (65 \<le> n \<and> n \<le> 90) \<or> (97 \<le> n \<and> n \<le> 122) \<or> n = 95)"

definition is_ident_char :: "char \<Rightarrow> bool" where
  \<comment> \<open>\<^verbatim>\<open>[A-Za-z0-9_]\<close>\<close>
  "is_ident_char c \<longleftrightarrow> is_ident_start c \<or> (let n = (of_char c :: nat) in 48 \<le> n \<and> n \<le> 57)"

definition ident_then :: "char \<Rightarrow> string \<Rightarrow> bool" where
  \<comment> \<open>\<open>re.match\<close> of \<^verbatim>\<open>[A-Za-z_][A-Za-z0-9_]*\s*c\<close> for the character \<open>c\<close>, which is \<open>=\<close> or \<open>(\<close>\<close>
  "ident_then c s =
     (case s of
        [] \<Rightarrow> False
      | h # t \<Rightarrow> is_ident_start h
                 \<and> startswith (dropWhile isspace (dropWhile is_ident_char t)) [c])"

definition statement_keywords :: "string list" where
  "statement_keywords = [''def '', ''class '', ''for '', ''if '', ''while '', ''try:'', ''with '',
     ''return '', ''import '', ''from '', ''print('', ''print '']"

definition line_is_likely_statement_start :: "string \<Rightarrow> bool" where
  "line_is_likely_statement_start line =
     (let s = lstrip line in
      if s = [] then False
      else if list_ex (startswith s) statement_keywords then True
      else if ident_then (CHR ''='') s then True
      else if ident_then (CHR ''('') s then True
      else if is_ident_char (hd s) \<or> hd s \<in> set [SQUOTE, DQUOTE, CHR 0x60] then True
      else False)"

definition split_hash :: "string \<Rightarrow> string \<times> string" where
  \<comment> \<open>\<open>line.split("#", 1)\<close> of a line that holds \<open>#\<close>\<close>
  "split_hash line =
     (takeWhile (\<lambda>c. c \<noteq> CHR ''#'') line, drop 1 (dropWhile (\<lambda>c. c \<noteq> CHR ''#'') line))"

definition close_opener_on_line :: "string \<Rightarrow> nat \<Rightarrow> char \<Rightarrow> string" where
  \<comment> \<open>\<open>opener_char\<close> is an opener: the one caller takes it from
      \<open>_first_unclosed_opener_in_line\<close>, so \<open>OPENERS[opener_char]\<close> does not raise\<close>
  "close_opener_on_line line opener_idx opener_char =
     (case OPENERS opener_char of
        None \<Rightarrow> line
      | Some closer \<Rightarrow>
          if closer \<in> set (drop opener_idx line) then line
          else if CHR ''#'' \<in> set line then
            (let code_part = fst (split_hash line); comment = snd (split_hash line)
             in rstrip code_part @ [closer] @ ''  #'' @ comment)
          else rstrip line @ [closer])"

fun dedent_line :: "string \<Rightarrow> nat \<Rightarrow> string" where
  "dedent_line [] n = []"
| "dedent_line (c # cs) 0 = c # cs"
| "dedent_line (c # cs) (Suc n) = (if c = CHR '' '' then dedent_line cs n else c # cs)"

definition indent_of :: "string \<Rightarrow> nat" where
  \<comment> \<open>\<open>len(line) - len(line.lstrip())\<close>\<close>
  "indent_of line = length line - length (lstrip line)"

definition split_out_of_literal :: "string list \<Rightarrow> nat \<Rightarrow> string list" where
  \<comment> \<open>\<open>start_idx\<close> is the index of a line: the one caller takes it from \<open>enumerate(lines)\<close>\<close>
  "split_out_of_literal lines start_idx =
     (let start_line = lines ! start_idx in
      case first_unclosed_opener_in_line start_line of
        None \<Rightarrow> lines
      | Some opener_info \<Rightarrow>
          (let new_start = close_opener_on_line start_line (fst opener_info) (snd opener_info);
               new_lines = lines[start_idx := new_start]
           in if start_idx + 1 < length new_lines then
                (let next_line = new_lines ! (start_idx + 1);
                     base_indent = indent_of start_line
                 in if indent_of next_line \<le> base_indent \<or> line_is_likely_statement_start next_line
                    then new_lines[start_idx + 1 :=
                           dedent_line next_line (if base_indent > 0 then base_indent else 4)]
                    else new_lines)
              else new_lines))"

definition find_last_openers :: "string list \<Rightarrow> (nat \<times> nat \<times> char) list" where
  "find_last_openers lines =
     concat (map (\<lambda>(idx, ln). case first_unclosed_opener_in_line ln of
                                None \<Rightarrow> []
                              | Some res \<Rightarrow> [(idx, fst res, snd res)])
                 (enumerate 0 lines))"

text \<open>
  The scanner of \<open>_count_unmatched_openers\<close> and \<open>_close_all_openers_conservatively\<close>: the
  stack of expected closers, and whether the scan is inside a single-quoted or double-quoted
  string or behind a backslash.
\<close>

fun scan_code :: "string \<Rightarrow> bool \<Rightarrow> bool \<Rightarrow> bool \<Rightarrow> string \<Rightarrow> string" where
  "scan_code stack in_single in_double escaped [] = stack"
| "scan_code stack in_single in_double escaped (ch # rest) =
     (if ch = BACKSLASH \<and> \<not> escaped then scan_code stack in_single in_double True rest
      else if ch = SQUOTE \<and> \<not> escaped \<and> \<not> in_double
        then scan_code stack (\<not> in_single) in_double escaped rest
      else if ch = DQUOTE \<and> \<not> escaped \<and> \<not> in_single
        then scan_code stack in_single (\<not> in_double) escaped rest
      else if in_single \<or> in_double then scan_code stack in_single in_double False rest
      else
        (case OPENERS ch of
           Some closer \<Rightarrow> scan_code (closer # stack) in_single in_double False rest
         | None \<Rightarrow>
             if is_closer ch then
               (case stack of
                  [] \<Rightarrow> scan_code stack in_single in_double False rest
                | tp # below \<Rightarrow>
                    if tp = ch then scan_code below in_single in_double False rest
                    else scan_code stack in_single in_double False rest)
             else scan_code stack in_single in_double False rest))"

definition count_unmatched_openers :: "string \<Rightarrow> nat" where
  "count_unmatched_openers code = length (scan_code [] False False False code)"

definition close_all_openers_conservatively :: "string \<Rightarrow> string" where
  "close_all_openers_conservatively code =
     (let stack = scan_code [] False False False code in
      if stack = [] then code
      else rstrip code @ (if \<not> endswith code [LF] then [LF] else []) @ stack @ [LF])"

datatype attempt = Fixed string | Improved "string list" | Unchanged

fun try_openers :: "python \<Rightarrow> string list \<Rightarrow> (nat \<times> nat \<times> char) list \<Rightarrow> attempt" where
  \<comment> \<open>the inner loop over the openers of one attempt\<close>
  "try_openers py lines [] = Unchanged"
| "try_openers py lines (opener # openers) =
     (let candidate_lines = split_out_of_literal lines (fst opener);
          candidate_code = join_nl candidate_lines
      in if candidate_code \<noteq> join_nl lines then
           (if ast_parse py candidate_code \<noteq> None then Fixed candidate_code
            else if count_unmatched_openers candidate_code < count_unmatched_openers (join_nl lines)
              then Improved candidate_lines
            else try_openers py lines openers)
         else try_openers py lines openers)"

fun ssr_attempts :: "python \<Rightarrow> nat \<Rightarrow> string list \<Rightarrow> string + string list" where
  \<comment> \<open>the loop over the attempts left: the code it returns, or the lines it ends with\<close>
  "ssr_attempts py 0 lines = Inr lines"
| "ssr_attempts py (Suc n) lines =
     (let openers = find_last_openers lines in
      if openers = [] then Inr lines
      else
        (case try_openers py lines (sort_key fst openers) of
           Fixed code \<Rightarrow> Inl code
         | Improved candidate_lines \<Rightarrow> ssr_attempts py n candidate_lines
         | Unchanged \<Rightarrow>
             (let combined = close_all_openers_conservatively (join_nl lines) in
              if combined \<noteq> join_nl lines \<and> ast_parse py combined \<noteq> None then Inl combined
              else Inr lines)))"

fun attempts_exhausted :: "python \<Rightarrow> nat \<Rightarrow> string list \<Rightarrow> bool" where
  \<comment> \<open>whether the loop over the attempts ends because no attempt is left: it neither returns
      nor reaches a \<open>break\<close>\<close>
  "attempts_exhausted py 0 lines = True"
| "attempts_exhausted py (Suc n) lines =
     (let openers = find_last_openers lines in
      if openers = [] then False
      else
        (case try_openers py lines (sort_key fst openers) of
           Fixed code \<Rightarrow> False
         | Improved candidate_lines \<Rightarrow> attempts_exhausted py n candidate_lines
         | Unchanged \<Rightarrow> False))"

definition apply_ssr_fix_within :: "python \<Rightarrow> string \<Rightarrow> nat \<Rightarrow> string" where
  \<comment> \<open>\<open>apply_ssr_fix(code, max_attempts)\<close>\<close>
  "apply_ssr_fix_within py code max_attempts =
     (if code = [] then code
      else
        let working = replace_crlf code in
        if ast_parse py working \<noteq> None then working
        else
          (case ssr_attempts py max_attempts (split_nl working) of
             Inl code' \<Rightarrow> code'
           | Inr lines \<Rightarrow>
               (let final_try = close_all_openers_conservatively (join_nl lines) in
                if final_try \<noteq> join_nl lines \<and> ast_parse py final_try \<noteq> None then final_try
                else join_nl lines)))"

definition apply_ssr_fix :: "python \<Rightarrow> string \<Rightarrow> string" where
  \<comment> \<open>\<open>apply_ssr_fix(code)\<close>, with the default of four attempts\<close>
  "apply_ssr_fix py code = apply_ssr_fix_within py code 4"

section \<open>Structured fixer\<close>

text \<open>\<open>fixer/ast_fixer.py\<close>.\<close>

fun unclosed_closers :: "string \<Rightarrow> string \<Rightarrow> string" where
  \<comment> \<open>the stack of expected closers after the scan of \<open>fix_unclosed_brackets\<close>, top first\<close>
  "unclosed_closers stack [] = stack"
| "unclosed_closers stack (ch # rest) =
     (case OPENERS ch of
        Some closer \<Rightarrow> unclosed_closers (closer # stack) rest
      | None \<Rightarrow>
          if is_closer ch then
            (case stack of
               [] \<Rightarrow> unclosed_closers stack rest
             | tp # below \<Rightarrow>
                 if tp = ch then unclosed_closers below rest else unclosed_closers stack rest)
          else unclosed_closers stack rest)"

definition fix_unclosed_brackets :: "string \<Rightarrow> string" where
  \<comment> \<open>\<open>code += "".join(stack[::-1])\<close>\<close>
  "fix_unclosed_brackets code = code @ unclosed_closers [] code"

definition CLOSERS :: "char \<Rightarrow> char option" where
  "CLOSERS c = (if c = CHR '')'' then Some (CHR ''('')
                else if c = CHR '']'' then Some (CHR ''['')
                else if c = CHR ''}'' then Some (CHR ''{'')
                else None)"

fun drop_unmatched_closers :: "string \<Rightarrow> string \<Rightarrow> string" where
  \<comment> \<open>the scan of \<open>fix_backward_bracket_mismatch\<close>; the stack holds openers\<close>
  "drop_unmatched_closers stack [] = []"
| "drop_unmatched_closers stack (ch # rest) =
     (if is_opener ch then ch # drop_unmatched_closers (ch # stack) rest
      else
        (case CLOSERS ch of
           Some opener \<Rightarrow>
             (case stack of
                [] \<Rightarrow> drop_unmatched_closers stack rest
              | tp # below \<Rightarrow>
                  if tp = opener then ch # drop_unmatched_closers below rest
                  else drop_unmatched_closers stack rest)
         | None \<Rightarrow> ch # drop_unmatched_closers stack rest))"

definition fix_backward_bracket_mismatch :: "string \<Rightarrow> string" where
  "fix_backward_bracket_mismatch code = drop_unmatched_closers [] code"

definition fix_unclosed_strings :: "string \<Rightarrow> string" where
  "fix_unclosed_strings code =
     (let code1 = (if count_list code DQUOTE mod 2 = 1 then code @ [DQUOTE] else code)
      in if count_list code1 SQUOTE mod 2 = 1 then code1 @ [SQUOTE] else code1)"

definition block_keywords :: "string list" where
  "block_keywords = [''def '', ''if '', ''for '', ''while '', ''class '', ''elif '', ''else'',
     ''try'', ''except'', ''finally'', ''with '']"

fun colons_and_indent :: "bool \<Rightarrow> string list \<Rightarrow> string list" where
  \<comment> \<open>the loop of \<open>fix_missing_colons_and_indent\<close>.  The source indents \<open>lines[i + 1]\<close> in
      place while it is at line \<open>i\<close>; here the flag says that the line before ended in a
      colon, and the line is indented when its turn comes\<close>
  "colons_and_indent after_colon [] = []"
| "colons_and_indent after_colon (ln # rest) =
     (let ln0 = (if after_colon \<and> strip ln \<noteq> [] \<and> \<not> startswith ln '' '' then ''    '' @ ln else ln);
          s = strip ln0;
          ln1 = (if list_ex (startswith s) block_keywords \<and> \<not> endswith s '':''
                 then rstrip ln0 @ '':'' else ln0)
      in ln1 # colons_and_indent (endswith (strip ln1) '':'') rest)"

definition fix_missing_colons_and_indent :: "string \<Rightarrow> string" where
  "fix_missing_colons_and_indent code = join_nl (colons_and_indent False (split_nl code))"

fun split_ws :: "string \<Rightarrow> bool \<Rightarrow> string \<Rightarrow> string list" where
  \<comment> \<open>\<open>re.split(r"\s+", s)\<close>: \<open>split_ws [] False s\<close>; the flag says that the scan is in a run of
      whitespace\<close>
  "split_ws acc in_run [] = [rev acc]"
| "split_ws acc in_run (c # cs) =
     (if isspace c then (if in_run then split_ws acc True cs else rev acc # split_ws [] True cs)
      else split_ws (c # acc) False cs)"

definition fix_list :: "python \<Rightarrow> string \<Rightarrow> string" where
  "fix_list py text =
     (let inner = butlast (drop 1 text);
          tokens = split_ws [] False inner
      in if list_all (re_test py LIST_TOKEN) tokens then ''['' @ join '', '' tokens @ '']'' else text)"

definition fix_missing_commas :: "python \<Rightarrow> string \<Rightarrow> string" where
  \<comment> \<open>\<open>re.sub(BRACKETED, lambda m: fix_list(m.group()), code)\<close>\<close>
  "fix_missing_commas py code =
     concat (map (\<lambda>(before, found). before @ fix_list py found) (fst (re_pieces py BRACKETED code)))
     @ snd (re_pieces py BRACKETED code)"

definition fix_incomplete_calls :: "python \<Rightarrow> string \<Rightarrow> string option" where
  \<comment> \<open>the replacement template is \<^verbatim>\<open>\1()\<close>\<close>
  "fix_incomplete_calls py code = re_sub py INCOMPLETE_CALL ([BACKSLASH] @ ''1()'') code 0"

definition fix_broken_assignments :: "python \<Rightarrow> string \<Rightarrow> string option" where
  \<comment> \<open>the replacement template is \<^verbatim>\<open>\1 = None\<close>\<close>
  "fix_broken_assignments py code = re_sub py BARE_ASSIGN ([BACKSLASH] @ ''1 = None'') code 0"

definition fix_trailing_operators :: "python \<Rightarrow> string \<Rightarrow> string option" where
  "fix_trailing_operators py code = re_sub py TRAILING_OP [] code 0"

definition rstrip_chars :: "string \<Rightarrow> string \<Rightarrow> string" where
  \<comment> \<open>\<open>s.rstrip(chars)\<close>\<close>
  "rstrip_chars chars s = rev (dropWhile (\<lambda>c. c \<in> set chars) (rev s))"

definition heal_line :: "python \<Rightarrow> string \<Rightarrow> string option" where
  \<comment> \<open>the body of the loop of \<open>heal_broken_expressions\<close>\<close>
  "heal_line py ln =
     (let s = strip ln;
          ln1 = (if s \<noteq> [] \<and> last s \<in> set ''+-*/%'' then rstrip_chars '' +*/%-'' ln @ '' 0'' else ln)
      in case re_sub py EMPTY_ITEM '', None,'' ln1 0 of
           None \<Rightarrow> None
         | Some ln2 \<Rightarrow>
             (let ln3 = (if endswith s ''('' then ln2 @ '')'' else ln2)
              in Some (if startswith ln3 '' '' \<or> startswith ln3 [CHR 0x09] then ln3 else lstrip ln3)))"

fun heal_lines :: "python \<Rightarrow> string list \<Rightarrow> string list option" where
  "heal_lines py [] = Some []"
| "heal_lines py (ln # rest) =
     (case heal_line py ln of
        None \<Rightarrow> None
      | Some ln' \<Rightarrow> (case heal_lines py rest of None \<Rightarrow> None | Some rest' \<Rightarrow> Some (ln' # rest')))"

definition heal_broken_expressions :: "python \<Rightarrow> string \<Rightarrow> string option" where
  "heal_broken_expressions py code = map_option join_nl (heal_lines py (split_nl code))"

definition syntax_fixes :: "python \<Rightarrow> string \<Rightarrow> string option" where
  \<comment> \<open>the eight syntax passes of \<open>try_ast_fix\<close>, in its order\<close>
  "syntax_fixes py code =
     (let code1 = fix_unclosed_brackets code;
          code2 = fix_backward_bracket_mismatch code1;
          code3 = fix_unclosed_strings code2;
          code4 = fix_missing_colons_and_indent code3;
          code5 = fix_missing_commas py code4
      in case fix_incomplete_calls py code5 of
           None \<Rightarrow> None
         | Some code6 \<Rightarrow>
             (case fix_broken_assignments py code6 of
                None \<Rightarrow> None
              | Some code7 \<Rightarrow> fix_trailing_operators py code7))"

text \<open>
  The semantic stage, \<open>fix_imports_and_names(code, tree)\<close>, reads the tree through \<open>ast.walk\<close>,
  rewrites it with a \<open>NodeTransformer\<close> and \<open>ast.unparse\<close>, and visits a set of names in
  hash order.  It is a parameter of \<open>try_ast_fix\<close> here: \<open>semantic code tree\<close>, \<open>None\<close> when it
  raises.  \<open>try_ast_fix\<close> is \<open>None\<close> when an exception leaves it.
\<close>

definition try_ast_fix ::
  "python \<Rightarrow> (string \<Rightarrow> node list \<Rightarrow> string option) \<Rightarrow> ErrorType \<Rightarrow> string \<Rightarrow> string option" where
  "try_ast_fix py semantic error_type code =
     (let original = code in
      case syntax_fixes py code of
        None \<Rightarrow> None
      | Some fixed \<Rightarrow>
          (case ast_parse py fixed of
             Some parsed \<Rightarrow> semantic fixed parsed
           | None \<Rightarrow>
               (case heal_broken_expressions py fixed of
                  None \<Rightarrow> None
                | Some healed \<Rightarrow>
                    (case ast_parse py healed of
                       Some parsed \<Rightarrow> semantic healed parsed
                     | None \<Rightarrow> Some (if healed \<noteq> [] then healed else original)))))"

section \<open>Classifier and validation\<close>

text \<open>\<open>errors/error_classifier.py\<close>.\<close>

definition AST_FIRST :: "ErrorType list" where
  "AST_FIRST = [SYNTAX, NAME, IMPORT, ATTRIBUTE, KEY, VALUE, FILE, PARSE, REGEX, ENCODING]"

definition LLM_FIRST :: "ErrorType list" where
  "LLM_FIRST = [LOGICAL, RECURSION, RUNTIME, ZERO_DIVISION, ARITHMETIC, NETWORK, SYSTEM, MEMORY]"

definition choose_fix_method :: "ErrorType \<Rightarrow> string" where
  "choose_fix_method error_type =
     (if error_type \<in> set AST_FIRST then ''AST''
      else if error_type \<in> set LLM_FIRST then ''LLM''
      else ''LLM'')"

text \<open>\<open>utils/validation.py\<close>.\<close>

definition is_sandbox_log :: "string \<Rightarrow> bool" where
  "is_sandbox_log ln \<longleftrightarrow> startswith (strip ln) ''[20'' \<and> contains ''] [INFO]'' (strip ln)"

definition clean_stderr :: "string \<Rightarrow> string" where
  "clean_stderr stderr = strip (join_nl (filter (\<lambda>ln. \<not> is_sandbox_log ln) (splitlines stderr)))"

definition is_success :: "string \<Rightarrow> string \<Rightarrow> ErrorType \<Rightarrow> bool" where
  "is_success stdout stderr error_type =
     (if error_type \<noteq> NONE then False
      else
        let cleaned = clean_stderr stderr in
        if cleaned = [] then True
        else if list_ex (\<lambda>h. contains h (lower cleaned)) [''warning'', ''deprecated''] then True
        else False)"

definition validate_iteration :: "string \<Rightarrow> string \<Rightarrow> ErrorType \<Rightarrow> bool \<times> string" where
  "validate_iteration stdout stderr error_type =
     (let success = is_success stdout stderr error_type in
      if success then (True, ''Execution succeeded.'')
      else
        let cleaned = lower (clean_stderr stderr) in
        if contains ''syntaxerror'' cleaned then (False, ''SyntaxError detected.'')
        else if contains ''indentationerror'' cleaned then (False, ''IndentationError detected.'')
        else if contains ''memoryerror'' cleaned then (False, ''MemoryError: exceeded limit.'')
        else if contains ''timeout'' cleaned \<or> contains ''timed out'' cleaned
          then (False, ''Execution timed out.'')
        else if strip stdout = [] \<and> strip cleaned = [] then (False, ''Code produced no output.'')
        else (False, ''Errors remain.''))"

section \<open>Iteration report\<close>

text \<open>
  \<open>iterations/iteration_report.py\<close>.  The error kind of a record is a member of \<open>ErrorType\<close> or,
  in the record of iteration 0, the string \<open>SEMANTIC\<close>.  The time stamp and the execution
  time of a record are left out, the error kind of a change entry is kept as it is passed
  (the source stores \<open>str(err_type)\<close>), and the fields \<open>iteration\<close>, \<open>fix_method\<close>, \<open>error_type\<close>,
  \<open>success\<close>, \<open>stdout\<close> and \<open>stderr\<close> carry the prefix \<open>rec_\<close>.  \<open>save_full_report\<close> writes the report to a file and returns
  its path; the model returns the report.
\<close>

datatype error_label = Kind ErrorType | Label string

record iteration_record =
  rec_iteration :: nat
  rec_fix_method :: string
  rec_error_type :: error_label
  rec_success :: bool
  rec_stdout :: string
  rec_stderr :: string
  code_snapshot :: string

definition create_iteration_report ::
  "nat \<Rightarrow> string \<Rightarrow> string \<Rightarrow> string \<Rightarrow> string \<Rightarrow> error_label \<Rightarrow> bool \<Rightarrow> iteration_record" where
  \<comment> \<open>\<open>create_iteration_report(iteration, code, stdout, stderr, fix_method, error_type, success)\<close>\<close>
  "create_iteration_report i code out err method kind ok =
     \<lparr> rec_iteration = i, rec_fix_method = method, rec_error_type = kind, rec_success = ok,
       rec_stdout = out, rec_stderr = err, code_snapshot = code \<rparr>"

datatype change_type = Removed | Added

record change_entry =
  change_iteration :: nat
  change_method :: string
  change_error :: error_label
  change :: change_type
  line_old :: "nat option"
  line_new :: "nat option"
  old_text :: string
  new_text :: string
  reason :: string

record report =
  final_status :: string
  total_iterations :: nat
  iterations :: "iteration_record list"
  changes :: "change_entry list"

definition save_full_report :: "iteration_record list \<Rightarrow> change_entry list \<Rightarrow> string \<Rightarrow> report" where
  "save_full_report iteration_reports change_log status =
     \<lparr> final_status = status, total_iterations = length iteration_reports,
       iterations = iteration_reports, changes = change_log \<rparr>"

section \<open>Iteration controller\<close>

text \<open>\<open>iterations/iteration_controller.py\<close>; \<open>config/settings.py\<close> for the two constants.\<close>

definition MAX_ITERATIONS :: int where "MAX_ITERATIONS = 5"
definition MODEL_MAX_TOKENS :: int where "MODEL_MAX_TOKENS = 400"

definition normalize_code :: "string \<Rightarrow> string" where
  "normalize_code s = rstrip (replace_crlf s)"

definition longest :: "string list \<Rightarrow> string" where
  \<comment> \<open>\<open>max(blocks, key=len)\<close> of a list that is not empty: the first of the longest\<close>
  "longest blocks = foldl (\<lambda>best b. if length b > length best then b else best) (hd blocks) (tl blocks)"

definition unindent :: "string \<Rightarrow> string" where
  \<comment> \<open>\<open>re.sub(r"^( {4}|\t)", "", ln)\<close>\<close>
  "unindent ln = (if startswith ln ''    '' then drop 4 ln
                  else if startswith ln [CHR 0x09] then drop 1 ln else ln)"

definition looks_like_code :: "string \<Rightarrow> bool" where
  \<comment> \<open>\<open>re.search(r"(def |class |=|\()", candidate)\<close>\<close>
  "looks_like_code candidate \<longleftrightarrow>
     list_ex (\<lambda>tok. contains tok candidate) [''def '', ''class '', ''='', ''('']"

fun first_window :: "string list \<Rightarrow> nat list \<Rightarrow> string option" where
  \<comment> \<open>the first of the window sizes whose last lines look like code\<close>
  "first_window lines [] = None"
| "first_window lines (window # windows) =
     (let candidate = join_nl (drop (length lines - window) lines)
      in if looks_like_code candidate then Some (strip candidate) else first_window lines windows)"

definition extract_code_from_llm :: "python \<Rightarrow> string \<Rightarrow> string" where
  "extract_code_from_llm py llm =
     (if llm = [] then []
      else if re_findall py FENCE_PY llm \<noteq> [] then strip (last (re_findall py FENCE_PY llm))
      else if re_findall py FENCE_RAW llm \<noteq> [] then strip (last (re_findall py FENCE_RAW llm))
      else if re_findall py INDENTED_BLOCK ([LF] @ llm) \<noteq> [] then
        strip (join_nl (map unindent (splitlines (longest (re_findall py INDENTED_BLOCK ([LF] @ llm))))))
      else
        let lines = map rstrip (filter (\<lambda>ln. strip ln \<noteq> []) (splitlines llm)) in
        if lines = [] then []
        else (case first_window lines [1 ..< min 40 (length lines) + 1] of
                Some candidate \<Rightarrow> candidate
              | None \<Rightarrow> strip (join_nl (drop (length lines - 40) lines))))"

fun decimal :: "nat \<Rightarrow> string" where
  \<comment> \<open>the digits of a number, as the f-string writes them\<close>
  "decimal n = (if n < 10 then [char_of (48 + n)] else decimal (n div 10) @ [char_of (48 + n mod 10)])"

definition forced_diff_marker :: "nat \<Rightarrow> string" where
  \<comment> \<open>\<open>f"\n# forced-diff-{iteration}\n"\<close>\<close>
  "forced_diff_marker i = [LF] @ ''# forced-diff-'' @ decimal i @ [LF]"

definition ensure_diff :: "string \<Rightarrow> string \<Rightarrow> nat \<Rightarrow> string" where
  "ensure_diff old_code new_code i =
     (if normalize_code old_code \<noteq> normalize_code new_code then new_code
      else rstrip new_code @ forced_diff_marker i)"

definition detect_semantic_conflicts :: "python \<Rightarrow> string \<Rightarrow> bool" where
  "detect_semantic_conflicts py code =
     (let c = lower code in
      if contains ''def preorder'' c \<and> re_test py PREORDER_AFTER c then True
      else if contains ''def preorder'' c \<and> re_test py PREORDER_BETWEEN c then True
      else if contains ''def inorder'' c \<and> \<not> re_test py INORDER_LNR c then True
      else if contains ''def postorder'' c \<and> re_test py POSTORDER_APPEND c then True
      else if contains ''def fib'' c \<and> contains ''memo'' c \<and> contains ''return memo[0]'' c then True
      else if contains ''def binary_search'' c \<or> contains ''def binarysearch'' c then
        (if contains ''mid ='' c \<and> \<not> contains ''//'' c \<and> contains ''+'' c \<and> re_test py MID_DIVISION c
           then True
         else if re_test py LEFT_MID c then True
         else if re_test py RIGHT_MID c then True
         else False)
      else False)"

fun diff_rows ::
  "nat \<Rightarrow> string \<Rightarrow> error_label \<Rightarrow> nat \<Rightarrow> nat \<Rightarrow> string list \<Rightarrow> change_entry list" where
  \<comment> \<open>the loop of \<open>compute_changes\<close> over the rows, with the two line counters\<close>
  "diff_rows i method err old_ln new_ln [] = []"
| "diff_rows i method err old_ln new_ln (row # rows) =
     (let tag = take 2 row; text = drop 2 row in
      if tag = ''  '' then diff_rows i method err (old_ln + 1) (new_ln + 1) rows
      else if tag = ''- '' then
        \<lparr> change_iteration = i, change_method = method, change_error = err, change = Removed,
          line_old = Some (old_ln + 1), line_new = None, old_text = text, new_text = [],
          reason = ''Removed'' \<rparr> # diff_rows i method err (old_ln + 1) new_ln rows
      else if tag = ''+ '' then
        \<lparr> change_iteration = i, change_method = method, change_error = err, change = Added,
          line_old = None, line_new = Some (new_ln + 1), old_text = [], new_text = text,
          reason = ''Added'' \<rparr> # diff_rows i method err old_ln (new_ln + 1) rows
      else diff_rows i method err old_ln new_ln rows)"

definition compute_changes ::
  "python \<Rightarrow> string \<Rightarrow> string \<Rightarrow> nat \<Rightarrow> string \<Rightarrow> error_label \<Rightarrow> change_entry list" where
  "compute_changes py old_code new_code i method err =
     diff_rows i method err 0 0 (ndiff py (splitlines old_code) (splitlines new_code))"

fun apply_logical_patches :: "python \<Rightarrow> string \<Rightarrow> issue list \<Rightarrow> string" where
  "apply_logical_patches py patched [] = patched"
| "apply_logical_patches py patched (it # issues) =
     (case suggested_patch it of
        None \<Rightarrow> apply_logical_patches py patched issues
      | Some p \<Rightarrow>
          if patch_kind p = ''text_replace'' then
            (case re_sub py (PATCH (patch_pattern p)) (patch_replacement p) patched 0 of
               None \<Rightarrow> apply_logical_patches py patched issues
             | Some patched' \<Rightarrow> apply_logical_patches py patched' issues)
          else apply_logical_patches py patched issues)"

definition SEMANTIC_PROMPT :: string where
  "SEMANTIC_PROMPT = ''Fix the logic according to the function naming semantics. Return a full corrected file or code block.''"

definition semantic_merge :: "python \<Rightarrow> string \<Rightarrow> string \<Rightarrow> string \<Rightarrow> string" where
  \<comment> \<open>the \<open>try\<close> and \<open>except\<close> of the iteration-0 branch: the new code\<close>
  "semantic_merge py original_code llm_raw extracted =
     (let on_error = (if extracted \<noteq> [] \<and> length (splitlines extracted) > 2 then extracted
                      else original_code)
      in case merge_llm_result py original_code llm_raw True of
           None \<Rightarrow> on_error
         | Some merged_candidate \<Rightarrow>
             if merged_candidate \<noteq> []
                \<and> normalize_code merged_candidate \<noteq> normalize_code original_code
             then merged_candidate
             else if extracted \<noteq> [] then
               (case merge_llm_result py original_code extracted True of
                  None \<Rightarrow> on_error
                | Some merged_from_extracted \<Rightarrow>
                    if merged_from_extracted \<noteq> []
                       \<and> normalize_code merged_from_extracted \<noteq> normalize_code original_code
                    then merged_from_extracted
                    else if ast_parse py extracted \<noteq> None then extracted
                    else if merged_candidate \<noteq> [] then merged_candidate else original_code)
             else if merged_candidate \<noteq> [] then merged_candidate else original_code)"

definition semantic_iteration :: "python \<Rightarrow> world \<Rightarrow> string \<Rightarrow> string \<Rightarrow> string \<times> report" where
  \<comment> \<open>the iteration-0 branch of \<open>run_repair_loop\<close>\<close>
  "semantic_iteration py w original_code user_prompt =
     (let llm_raw = generate_llm_fix py w 0 original_code ''SEMANTIC_INTENT_MISMATCH''
                      (if user_prompt \<noteq> [] then user_prompt else SEMANTIC_PROMPT) []
                      (Some MODEL_MAX_TOKENS);
          extracted = extract_code_from_llm py llm_raw;
          new_code = semantic_merge py original_code llm_raw extracted;
          diff_entries = compute_changes py original_code new_code 0 ''LLM'' (Label ''SEMANTIC'');
          iteration_report = create_iteration_report 0 new_code [] [] ''LLM'' (Label ''SEMANTIC'') True
      in (new_code, save_full_report [iteration_report] diff_entries ''SUCCESS''))"

text \<open>
  The fix stage of an iteration (\<open>APPLY FIX\<close>): from the code after the first SSR pass and the
  logical patches to the code handed to the second SSR pass, with the method applied.
  \<open>None\<close> is an exception of \<open>merge_llm_result\<close> that nothing catches.
\<close>

definition llm_stage ::
  "python \<Rightarrow> world \<Rightarrow> nat \<Rightarrow> string \<Rightarrow> string \<Rightarrow> string \<Rightarrow> issue list \<Rightarrow> string option" where
  \<comment> \<open>the branch \<open>if method == "LLM"\<close>; \<open>new_code\<close> is \<open>old_code\<close> when it is entered\<close>
  "llm_stage py w i old_code full_err user_prompt logic_issues =
     (let new_code = old_code;
          llm_raw = generate_llm_fix py w (2 * i) new_code full_err user_prompt logic_issues
                      (Some MODEL_MAX_TOKENS)
      in case merge_llm_result py new_code llm_raw False of
           None \<Rightarrow> None
         | Some merged \<Rightarrow>
             (let extracted = extract_code_from_llm py llm_raw in
              if normalize_code merged \<noteq> normalize_code new_code then Some merged
              else if extracted \<noteq> [] \<and> normalize_code extracted \<noteq> normalize_code new_code then
                (case merge_llm_result py new_code extracted True of
                   None \<Rightarrow> None
                 | Some merged_from_extracted \<Rightarrow>
                     if normalize_code merged_from_extracted \<noteq> normalize_code new_code
                     then Some merged_from_extracted
                     else if ast_parse py extracted \<noteq> None then
                       (case merge_llm_result py new_code extracted True of
                          None \<Rightarrow> Some (ensure_diff old_code old_code i)
                        | Some merged_try \<Rightarrow>
                            if normalize_code merged_try \<noteq> normalize_code new_code
                            then Some merged_try
                            else Some (ensure_diff old_code old_code i))
                     else Some (ensure_diff old_code old_code i))
              else Some (ensure_diff old_code old_code i)))"

definition fix_stage ::
  "python \<Rightarrow> (string \<Rightarrow> node list \<Rightarrow> string option) \<Rightarrow> world \<Rightarrow> nat \<Rightarrow> string \<Rightarrow> string
   \<Rightarrow> ErrorType \<Rightarrow> string \<Rightarrow> string \<Rightarrow> issue list \<Rightarrow> (string \<times> string) option" where
  "fix_stage py semantic w i method old_code error_type full_err user_prompt logic_issues =
     (if method = ''AST'' then
        (case try_ast_fix py semantic error_type old_code of
           Some patched \<Rightarrow>
             if normalize_code patched \<noteq> normalize_code old_code then Some (patched, ''AST'')
             else map_option (\<lambda>new_code. (new_code, ''LLM''))
                    (llm_stage py w i old_code full_err user_prompt logic_issues)
         | None \<Rightarrow> map_option (\<lambda>new_code. (new_code, ''LLM''))
                     (llm_stage py w i old_code full_err user_prompt logic_issues))
      else if method = ''LLM'' then
        map_option (\<lambda>new_code. (new_code, ''LLM''))
          (llm_stage py w i old_code full_err user_prompt logic_issues)
      else Some (old_code, method))"

datatype step =
    Finish string "iteration_record list" "change_entry list"
  | Continue string "iteration_record list" "change_entry list"
  | Crash

definition effective_error :: "world \<Rightarrow> nat \<Rightarrow> string \<Rightarrow> ErrorType" where
  \<comment> \<open>\<open>error_type\<close> at the head of iteration \<open>i\<close>: \<open>LOGICAL\<close> if the detector finds issues, else
      the kind parsed from the diagnostic of the run\<close>
  "effective_error w i code =
     (if inspect_and_test w (2 * i) code \<noteq> [] then LOGICAL
      else fst (parse_error (snd (run_in_sandbox w (2 * i) code)) code []))"

definition select_method :: "string \<Rightarrow> ErrorType \<Rightarrow> string" where
  \<comment> \<open>\<open>SELECT FIX METHOD\<close>\<close>
  "select_method user_prompt error_type =
     (if strip user_prompt \<noteq> [] then ''LLM''
      else if error_type = LOGICAL then ''LLM''
      else choose_fix_method error_type)"

definition prepare_code :: "python \<Rightarrow> world \<Rightarrow> nat \<Rightarrow> string \<Rightarrow> string" where
  \<comment> \<open>\<open>old_code\<close>: the code after \<open>PRE-FIX SSR\<close> and \<open>LOGIC PATCHES\<close>\<close>
  "prepare_code py w i code =
     (let code1 = apply_ssr_fix py code in
      if effective_error w i code = LOGICAL
      then apply_logical_patches py code1 (inspect_and_test w (2 * i) code)
      else code1)"

definition validated_error :: "world \<Rightarrow> nat \<Rightarrow> string \<Rightarrow> string \<Rightarrow> ErrorType" where
  \<comment> \<open>\<open>new_err\<close>: the kind parsed after the fix, raised to \<open>LOGICAL\<close> when the output changed or
      the detector finds issues\<close>
  "validated_error w i iteration_start_output new_code =
     (let val_stdout = fst (run_in_sandbox w (2 * i + 1) new_code);
          val_stderr = snd (run_in_sandbox w (2 * i + 1) new_code);
          new_err0 = fst (parse_error val_stderr new_code []);
          new_err1 = (if val_stdout \<noteq> iteration_start_output then LOGICAL else new_err0)
      in if inspect_and_test w (2 * i + 1) new_code \<noteq> [] then LOGICAL else new_err1)"

definition iteration_body ::
  "python \<Rightarrow> (string \<Rightarrow> node list \<Rightarrow> string option) \<Rightarrow> world \<Rightarrow> string \<Rightarrow> nat
   \<Rightarrow> string \<Rightarrow> iteration_record list \<Rightarrow> change_entry list \<Rightarrow> step" where
  \<comment> \<open>the body of the \<open>for\<close> loop at index \<open>i\<close>: \<open>Finish\<close> where the source returns with status
      \<open>SUCCESS\<close>, \<open>Continue\<close> at the end of the body, \<open>Crash\<close> when an exception leaves it\<close>
  "iteration_body py semantic w user_prompt i code iteration_reports change_log =
     (let out = fst (run_in_sandbox w (2 * i) code);
          err = snd (run_in_sandbox w (2 * i) code);
          iteration_start_output = out;
          full_err = snd (parse_error err code []);
          logic_issues = inspect_and_test w (2 * i) code;
          error_type = effective_error w i code
      in
      if error_type = NONE \<and> strip user_prompt = [] then
        Finish code
          (iteration_reports @ [create_iteration_report i code out err ''NONE'' (Kind error_type) True])
          change_log
      else
        let method = select_method user_prompt error_type;
            old_code = prepare_code py w i code
        in
        case fix_stage py semantic w i method old_code error_type full_err user_prompt logic_issues of
          None \<Rightarrow> Crash
        | Some (fixed, applied_method) \<Rightarrow>
            (let new_code = apply_ssr_fix py fixed;
                 change_log' =
                   (if normalize_code new_code \<noteq> normalize_code old_code
                    then change_log @ compute_changes py old_code new_code i applied_method (Kind error_type)
                    else change_log);
                 val_stdout = fst (run_in_sandbox w (2 * i + 1) new_code);
                 val_stderr = snd (run_in_sandbox w (2 * i + 1) new_code);
                 new_err = validated_error w i iteration_start_output new_code;
                 ok = fst (validate_iteration val_stdout val_stderr new_err);
                 iteration_reports' = iteration_reports @
                   [create_iteration_report i new_code val_stdout val_stderr applied_method
                      (Kind new_err) ok]
             in if applied_method = ''LLM'' \<and> new_err = NONE
                then Finish new_code iteration_reports' change_log'
                else Continue new_code iteration_reports' change_log'))"

fun repair_loop ::
  "python \<Rightarrow> (string \<Rightarrow> node list \<Rightarrow> string option) \<Rightarrow> world \<Rightarrow> string \<Rightarrow> nat list
   \<Rightarrow> string \<Rightarrow> iteration_record list \<Rightarrow> change_entry list \<Rightarrow> (string \<times> report) option" where
  \<comment> \<open>the \<open>for\<close> loop over the indices left, and the return behind it\<close>
  "repair_loop py semantic w user_prompt [] code iteration_reports change_log =
     Some (code, save_full_report iteration_reports change_log ''FAILED'')"
| "repair_loop py semantic w user_prompt (i # indices) code iteration_reports change_log =
     (case iteration_body py semantic w user_prompt i code iteration_reports change_log of
        Finish code' reports' log' \<Rightarrow> Some (code', save_full_report reports' log' ''SUCCESS'')
      | Continue code' reports' log' \<Rightarrow> repair_loop py semantic w user_prompt indices code' reports' log'
      | Crash \<Rightarrow> None)"

definition run_repair_loop ::
  "python \<Rightarrow> (string \<Rightarrow> node list \<Rightarrow> string option) \<Rightarrow> world \<Rightarrow> string \<Rightarrow> string \<Rightarrow> int option
   \<Rightarrow> (string \<times> report) option" where
  \<comment> \<open>the final code with the report; \<open>None\<close> when an exception leaves the function\<close>
  "run_repair_loop py semantic w original_code user_prompt max_iterations =
     (let max_iter = (case max_iterations of
                        None \<Rightarrow> MAX_ITERATIONS
                      | Some m \<Rightarrow> if m = 0 then MAX_ITERATIONS else m)
      in if detect_semantic_conflicts py original_code
         then Some (semantic_iteration py w original_code user_prompt)
         else repair_loop py semantic w user_prompt [1 ..< nat max_iter + 1] original_code [] [])"

section \<open>Replay of the change log\<close>

text \<open>
  Replay follows the spec's words, not the source (the source never replays): the entries
  are applied in order on the lines of the initial source, an added line at its recorded
  new position, a removed line at its recorded old position, shifted by the lines added and
  removed before it in the same iteration.
\<close>

definition replay_entry :: "string list \<times> nat \<times> int \<Rightarrow> change_entry \<Rightarrow> string list \<times> nat \<times> int" where
  "replay_entry st e =
     (let lines = fst st;
          shift = (if change_iteration e = fst (snd st) then snd (snd st) else 0)
      in case change e of
           Added \<Rightarrow>
             (case line_new e of
                Some n \<Rightarrow> (take (n - 1) lines @ [new_text e] @ drop (n - 1) lines,
                            change_iteration e, shift + 1)
              | None \<Rightarrow> (lines, change_iteration e, shift))
         | Removed \<Rightarrow>
             (case line_old e of
                Some n \<Rightarrow> (let k = nat (int n - 1 + shift)
                            in (take k lines @ drop (k + 1) lines, change_iteration e, shift - 1))
              | None \<Rightarrow> (lines, change_iteration e, shift)))"

definition replay :: "string \<Rightarrow> change_entry list \<Rightarrow> string list" where
  "replay initial entries = fst (foldl replay_entry (splitlines initial, 0, 0) entries)"


definition clean_record :: "iteration_record \<Rightarrow> bool" where
  \<comment> \<open>success implies the error kind \<open>NONE\<close>\<close>
  "clean_record r \<longleftrightarrow> (rec_success r \<longrightarrow> rec_error_type r = Kind NONE)"

definition verdicts :: "report \<Rightarrow> (nat \<times> bool \<times> error_label) list" where
  \<comment> \<open>index, success and error kind of the records of a report\<close>
  "verdicts rep = map (\<lambda>r. (rec_iteration r, rec_success r, rec_error_type r)) (iterations rep)"

definition edits :: "report \<Rightarrow> (change_type \<times> nat option \<times> nat option \<times> string \<times> string) list" where
  \<comment> \<open>kind, positions and texts of the entries of a report\<close>
  "edits rep = map (\<lambda>e. (change e, line_old e, line_new e, old_text e, new_text e)) (changes rep)"

section \<open>Finite descriptions of the library\<close>

text \<open>
  To run the model on a concrete input the library is given by tables: what \<open>ast.parse\<close>
  returns on the listed strings (every other string raises), which patterns match which
  strings, and what \<open>re.sub\<close> returns where a match is replaced (no other call finds a
  match).  Each table below lists what CPython answers on the calls the run makes.
\<close>

fun appended_ndiff :: "string list \<Rightarrow> string list \<Rightarrow> string list" where
  \<comment> \<open>the rows of \<open>difflib.ndiff\<close> when the new lines are the old lines followed by further
      lines, the one case the runs below meet: the common lines kept, the further lines added\<close>
  "appended_ndiff (a # old) (b # new) =
     (if a = b then (''  '' @ a) # appended_ndiff old new
      else map (\<lambda>ln. ''- '' @ ln) (a # old) @ map (\<lambda>ln. ''+ '' @ ln) (b # new))"
| "appended_ndiff old new = map (\<lambda>ln. ''- '' @ ln) old @ map (\<lambda>ln. ''+ '' @ ln) new"

definition table_python ::
  "(string \<times> node list) list \<Rightarrow> (pattern \<times> string) list \<Rightarrow> ((pattern \<times> string) \<times> string) list
   \<Rightarrow> ((pattern \<times> string) \<times> string list) list \<Rightarrow> ((pattern \<times> string \<times> string) \<times> string) list
   \<Rightarrow> python" where
  "table_python parses tests groups findalls subs =
     \<lparr> ast_parse = map_of parses,
       get_source_segment = (\<lambda>code i. None),
       re_test = (\<lambda>p s. (p, s) \<in> set tests),
       re_group = (\<lambda>p s. map_of groups (p, s)),
       re_findall = (\<lambda>p s. case map_of findalls (p, s) of None \<Rightarrow> [] | Some found \<Rightarrow> found),
       re_sub = (\<lambda>p repl s count. case map_of subs (p, repl, s) of None \<Rightarrow> Some s | Some r \<Rightarrow> Some r),
       re_pieces = (\<lambda>p s. ([], s)),
       ndiff = appended_ndiff \<rparr>"

definition py_expr :: python where
  \<comment> \<open>\<open>x\<close> parses, and so do the names \<open>a\<close>, \<open>b\<close> and \<open>a\<close> to \<open>d\<close> on a line each, as expression
      statements; no line of them matches \<open>CODE_LINE\<close>\<close>
  "py_expr = table_python
     [(''x'', [Other []]), (''a\<newline>b'', [Other [], Other []]),
      (''a\<newline>b\<newline>c\<newline>d'', [Other [], Other [], Other [], Other []])] [] [] [] []"

definition short_f :: string where
  "short_f = ''def f():\<newline> a\<newline>''"

definition long_f :: string where
  "long_f = ''def f():\<newline> a\<newline> b\<newline> c\<newline> d\<newline> e\<newline> f\<newline> g\<newline>''"

definition py_short_f :: python where
  \<comment> \<open>the candidate \<open>short_f\<close> followed by a stray \<open>)\<close> does not parse; its one block is
      \<open>short_f\<close>, which replaces the whole of \<open>long_f\<close>\<close>
  "py_short_f = table_python
     [(long_f, [FunctionDef ''f'' []]), ([LF] @ short_f @ [LF], [FunctionDef ''f'' []])]
     [(CODE_LINE, ''def f():''), (DEF_BLOCK_M ''f'', long_f)]
     [((DEF_HEAD, short_f), ''f'')]
     [((ANY_DEF_BLOCK_M, short_f @ '')''), [short_f])]
     [((DEF_BLOCK_M ''f'', [LF] @ short_f @ [LF], long_f), [LF] @ short_f @ [LF])]"

definition nine_imports :: string where
  "nine_imports = ''import a,b,c,d,e,f,g,h,i''"

definition py_nine_imports :: python where
  \<comment> \<open>\<open>nine_imports\<close> parses to one import statement of nine modules, and \<open>CODE_LINE\<close>
      matches it\<close>
  "py_nine_imports = table_python
     [(nine_imports, [Import [''a'', ''b'', ''c'', ''d'', ''e'', ''f'', ''g'', ''h'', ''i'']]),
      (''a'', [Other []])]
     [(CODE_LINE, nine_imports)] [] [] []"

definition f_returns_0 :: string where
  "f_returns_0 = ''def f():\<newline> 0\<newline>''"

definition f_with_imports :: string where
  "f_with_imports = ''def f():\<newline> 1\<newline>\<newline>import a\<newline>\<newline>import b\<newline>\<newline>import c\<newline>\<newline>import d\<newline>\<newline>import e\<newline>\<newline>import f\<newline>\<newline>import g\<newline>\<newline>import h\<newline>\<newline>import i\<newline>''"

definition py_f_with_imports :: python where
  \<comment> \<open>\<open>f_with_imports\<close> followed by a stray \<open>)\<close> does not parse; \<open>ANY_DEF_BLOCK_M\<close> finds
      one block in it, the whole of \<open>f_with_imports\<close>, because \<^verbatim>\<open>\s+\<close> runs over the blank
      lines; \<open>CODE_LINE\<close> matches its first line\<close>
  "py_f_with_imports = table_python
     [(f_returns_0, [FunctionDef ''f'' [Other []]]),
      ([LF] @ f_with_imports @ [LF],
         [FunctionDef ''f'' [Other []], Import [''a''], Import [''b''], Import [''c''],
          Import [''d''], Import [''e''], Import [''f''], Import [''g''], Import [''h''],
          Import [''i'']])]
     [(CODE_LINE, ''def f():''), (DEF_BLOCK_M ''f'', f_returns_0)]
     [((DEF_HEAD, f_with_imports), ''f'')]
     [((ANY_DEF_BLOCK_M, f_with_imports @ '')''), [f_with_imports])]
     [((DEF_BLOCK_M ''f'', [LF] @ f_with_imports @ [LF], f_returns_0), [LF] @ f_with_imports @ [LF])]"

definition py_nothing_parses :: python where
  \<comment> \<open>for runs on text that holds a line \<open>%\<close>, which no repair removes: no call of
      \<open>ast.parse\<close> succeeds\<close>
  "py_nothing_parses = table_python [] [] [] [] []"

definition five_open :: string where
  "five_open = ''(\<newline>(\<newline>(\<newline>(\<newline>(\<newline>%''"

definition py_list_repair :: python where
  \<comment> \<open>the unclosed list does not parse, the closed one does\<close>
  "py_list_repair = table_python [(''x = [1, 2]\<newline>print(x)'', [Assign [Name ''x''] [Other []], Other []])] [] [] [] []"

definition scripted_world :: "(string \<Rightarrow> string \<times> string) \<Rightarrow> string option \<Rightarrow> world" where
  \<comment> \<open>a sandbox whose output depends on the code alone, a detector that finds nothing, and a
      model with one answer (\<open>None\<close>: the backend is down)\<close>
  "scripted_world sandbox answer =
     \<lparr> run_in_sandbox = (\<lambda>now code. sandbox code),
       qwen_generate = (\<lambda>now prompt max_tokens. answer),
       inspect_and_test = (\<lambda>now code. []) \<rparr>"

definition constant_world :: "string option \<Rightarrow> world" where
  \<comment> \<open>the same with a sandbox that prints nothing\<close>
  "constant_world answer = scripted_world (\<lambda>code. ([], [])) answer"

definition py_x_line :: python where
  \<comment> \<open>\<open>x\<close> parses, with and without its line end; no pattern of the cleaning matches it\<close>
  "py_x_line = table_python [(''x'', [Other []]), (''x\<newline>'', [Other []])] [] [] [] []"

definition its_string :: string where
  \<comment> \<open>the assignment of the double-quoted string \<open>it's\<close> to \<open>x\<close>\<close>
  "its_string = ''x = '' @ [DQUOTE] @ ''it'' @ [SQUOTE] @ ''s'' @ [DQUOTE]"

definition py_its_string :: python where
  \<comment> \<open>\<open>its_string\<close> parses to one assignment; with a single quote appended it does not parse.
      It holds no bracket, no comma and no trailing operator: no pattern of the fixer matches\<close>
  "py_its_string = table_python [(its_string, [Assign [Name ''x''] [Other []]])] [] [] [] []"

definition no_semantic_change :: "string \<Rightarrow> node list \<Rightarrow> string option" where
  \<comment> \<open>a semantic stage that finds no name to import\<close>
  "no_semantic_change code tree = Some code"

definition fib_memo :: string where
  "fib_memo = ''def fib(n, memo): return memo[0]''"

definition py_fib_memo :: python where
  "py_fib_memo = table_python [(fib_memo, [FunctionDef ''fib'' [Other []]])] [] [] [] []"




definition open_paren :: string where
  "open_paren = ''x = (1\<newline>print(x)''"

definition closed_paren :: string where
  "closed_paren = ''x = (1)\<newline>print(x)''"

definition py_paren_repair :: python where
  \<comment> \<open>\<open>open_paren\<close> does not parse; \<open>closed_paren\<close> parses, also with the marker of iteration 1
      behind it.  No pattern of the structured fixer matches these texts\<close>
  "py_paren_repair = table_python
     [(closed_paren, [Assign [Name ''x''] [Other []], Other []]),
      (closed_paren @ ''\<newline># forced-diff-1\<newline>'', [Assign [Name ''x''] [Other []], Other []])]
     [] [] [] []"

definition paren_world :: world where
  \<comment> \<open>\<open>open_paren\<close> ends in a \<open>SyntaxError\<close>, every other code prints 1; the backend is down\<close>
  "paren_world =
     scripted_world (\<lambda>code. if code = open_paren then ([], ''SyntaxError'') else (''1\<newline>'', [])) None"

definition py_sub_raises :: python where
  \<comment> \<open>a library in which every call of \<open>re.sub\<close> raises\<close>
  "py_sub_raises = (table_python [] [] [] [] []) \<lparr> re_sub := (\<lambda>p repl s count. None) \<rparr>"

definition fenced_paren :: string where
  \<comment> \<open>a fenced block that holds a closing bracket alone\<close>
  "fenced_paren = ''```\<newline>)\<newline>```''"

definition py_comment_sub_raises :: python where
  \<comment> \<open>nothing parses; \<open>FENCE_NL\<close> finds the inside of \<open>fenced_paren\<close>, \<open>OPEN_FENCE\<close> and
      \<open>CLOSE_FENCE\<close> take its fences away; the call of \<open>re.sub\<close> with \<open>LEADING_COMMENT\<close>
      raises\<close>
  "py_comment_sub_raises =
     (table_python [] [] [((FENCE_NL, fenced_paren), '')\<newline>'')] []
        [((OPEN_FENCE, [], fenced_paren), '')\<newline>```''), ((CLOSE_FENCE, [], '')\<newline>```''), '')'')])
     \<lparr> re_sub := (\<lambda>p repl s count.
          if p = LEADING_COMMENT then None
          else (case map_of [((OPEN_FENCE, [], fenced_paren), '')\<newline>```''),
                             ((CLOSE_FENCE, [], '')\<newline>```''), '')'')] (p, repl, s) of
                  None \<Rightarrow> Some s | Some r \<Rightarrow> Some r)) \<rparr>"

section \<open>Properties of the error parser\<close>

lemma parse_error_python_blank:
  "strip text = [] \<Longrightarrow> parse_error text code ''python'' = (NONE, [])"
  by (simp add: parse_error_def lower_def lower_char_def)

lemma parse_error_python_fallthrough:
  assumes "strip text \<noteq> []" and "unrecognised text"
  shows "parse_error text code ''python'' = (RUNTIME, text)"
  using assms
  by (simp add: parse_error_def lower_def lower_char_def unrecognised_def known_error_tokens_def)

text \<open>
  C5 as stated fails: the diagnostic \<open>boom\<close> is not empty, holds none of the known tokens and
  no traceback marker, and \<open>parse_error\<close> answers \<open>RUNTIME\<close>, not \<open>UNKNOWN\<close>.
\<close>

theorem C5_counterexample:
  "''boom'' \<noteq> [] \<and> unrecognised ''boom'' \<and> \<not> contains ''Traceback'' ''boom''
   \<and> fst (parse_error ''boom'' [] ''python'') = RUNTIME
   \<and> fst (parse_error ''boom'' [] ''python'') \<noteq> UNKNOWN"
  by (simp add: parse_error_def lower_def lower_char_def unrecognised_def known_error_tokens_def
      strip_def lstrip_def rstrip_def isspace_def)

text \<open>
  C5, amended: for the primary language, \<open>parse_error\<close> maps an empty or all-whitespace
  diagnostic to \<open>NONE\<close>, and every other diagnostic that holds none of the known error tokens
  to \<open>RUNTIME\<close>, with or without a traceback marker; it never answers \<open>UNKNOWN\<close>.
\<close>

theorem C5_parse_error_python:
  "(strip text = [] \<longrightarrow> parse_error text code ''python'' = (NONE, []))
   \<and> (strip text \<noteq> [] \<and> unrecognised text \<longrightarrow> parse_error text code ''python'' = (RUNTIME, text))
   \<and> fst (parse_error text code ''python'') \<noteq> UNKNOWN"
proof -
  have "fst (parse_error text code ''python'') \<noteq> UNKNOWN"
    by (simp add: parse_error_def lower_def lower_char_def)
  then show ?thesis
    using parse_error_python_blank parse_error_python_fallthrough by blast
qed

theorem C5_parse_error_python_witness:
  "parse_error [] [] ''python'' = (NONE, [])
   \<and> parse_error ''Traceback: boom'' [] ''python'' = (RUNTIME, ''Traceback: boom'')
   \<and> parse_error ''boom'' [] ''python'' = (RUNTIME, ''boom'')"
proof -
  have b: "strip [] = []"
    by (simp add: strip_def lstrip_def rstrip_def)
  have t: "strip ''Traceback: boom'' \<noteq> [] \<and> unrecognised ''Traceback: boom''"
    by (simp add: strip_def lstrip_def rstrip_def isspace_def unrecognised_def known_error_tokens_def)
  have u: "strip ''boom'' \<noteq> [] \<and> unrecognised ''boom''"
    by (simp add: strip_def lstrip_def rstrip_def isspace_def unrecognised_def known_error_tokens_def)
  show ?thesis
    using b t u C5_parse_error_python [of "[]" "[]"]
      C5_parse_error_python [of "''Traceback: boom''" "[]"]
      C5_parse_error_python [of "''boom''" "[]"]
    by blast
qed

section \<open>Properties of the merge strategy\<close>

lemma card_set_diff: "card (set xs - set ys) = length (remdups (filter (\<lambda>x. x \<notin> set ys) xs))"
proof -
  have "set xs - set ys = set (filter (\<lambda>x. x \<notin> set ys) xs)"
    by auto
  then show ?thesis
    by (simp only: List.card_set)
qed

lemma full_rewrite_rejected:
  "full_rewrite py base llm_out allow = Some (v, r) \<Longrightarrow> rejected v \<Longrightarrow> r = base"
  by (auto simp: full_rewrite_def rejected_def Let_def split: if_splits option.splits prod.splits)

lemma regex_merge_rejected:
  "regex_merge py base llm_out candidate merged allow = Some (v, r) \<Longrightarrow> rejected v \<Longrightarrow> r = base"
  by (auto simp: regex_merge_def Let_def rejected_def split: if_splits option.splits prod.splits
      dest: full_rewrite_rejected [unfolded rejected_def])

lemma merge_rejected:
  assumes "merge_llm_result_logged py base llm_out allow = Some (v, r)" and "rejected v"
  shows "r = base"
proof (cases "llm_out = []")
  case True
  with assms show ?thesis by (simp add: merge_llm_result_logged_def)
next
  case False
  let ?cand = "candidate_of py llm_out"
  show ?thesis
  proof (cases "parse_ok py ?cand")
    case True
    with assms False show ?thesis
      by (auto simp: merge_llm_result_logged_def Let_def rejected_def split: if_splits)
  next
    case unparsed: False
    then have none: "ast_parse py ?cand = None"
      by (simp add: parse_ok_def)
    show ?thesis
    proof (cases "parse_ok py base")
      case True
      with assms False unparsed none
      have "regex_merge py base llm_out ?cand base allow = Some (v, r)"
        by (simp add: merge_llm_result_logged_def Let_def)
      then show ?thesis using assms(2) by (rule regex_merge_rejected)
    next
      case False
      with assms \<open>llm_out \<noteq> []\<close> unparsed show ?thesis
        by (simp add: merge_llm_result_logged_def Let_def)
    qed
  qed
qed

lemma merge_empty_output: "merge_llm_result_logged py base [] allow = Some (EmptyOutput, base)"
  by (simp add: merge_llm_result_logged_def)

lemma merge_shrink_rejected:
  assumes "llm_out \<noteq> []" and "parse_ok py (candidate_of py llm_out)"
    and "0 < count_lines base"
    and "count_lines (candidate_of py llm_out) < max 1 (shrink_limit (count_lines base))"
  shows "merge_llm_result_logged py base llm_out allow = Some (ShrinkRejected, base)"
  using assms by (simp add: merge_llm_result_logged_def Let_def)

lemma merge_additions_rejected:
  assumes "llm_out \<noteq> []" and "parse_ok py (candidate_of py llm_out)"
    and "MAX_ADDED_TOPLEVEL_DEFS
           < card (set (top_level_names py (candidate_of py llm_out)) - set (top_level_names py base))
         \<or> MAX_ADDED_IMPORTS
           < card (set (imports_from_code py (candidate_of py llm_out)) - set (imports_from_code py base))"
  shows "\<exists>v. rejected v \<and> merge_llm_result_logged py base llm_out allow = Some (v, base)"
  using assms by (auto simp: merge_llm_result_logged_def Let_def rejected_def)

lemma merge_base_unparseable:
  assumes "llm_out \<noteq> []" and "\<not> parse_ok py (candidate_of py llm_out)" and "\<not> parse_ok py base"
  shows "merge_llm_result_logged py base llm_out allow = Some (BaseUnparseable, base)"
  using assms by (simp add: merge_llm_result_logged_def Let_def)

lemma full_rewrite_no_substitution:
  assumes "allow \<longrightarrow> (\<exists>t. replace_blocks py (re_findall py ANY_DEF_BLOCK_M llm_out) (base, False) = Some (t, False))"
  shows "full_rewrite py base llm_out allow = Some (FellBack, base)"
  using assms by (auto simp: full_rewrite_def Let_def)

lemma merge_no_substitution:
  assumes "llm_out \<noteq> []" and "\<not> parse_ok py (candidate_of py llm_out)" and "parse_ok py base"
    and "replace_blocks py (re_findall py ANY_DEF_BLOCK_M (candidate_of py llm_out)) (base, False) = Some (t, False)"
    and "allow \<longrightarrow> (\<exists>t. replace_blocks py (re_findall py ANY_DEF_BLOCK_M llm_out) (base, False) = Some (t, False))"
  shows "merge_llm_result_logged py base llm_out allow = Some (FellBack, base)"
proof -
  have none: "ast_parse py (candidate_of py llm_out) = None"
    using assms(2) by (simp add: parse_ok_def)
  have "regex_merge py base llm_out (candidate_of py llm_out) base allow = Some (FellBack, base)"
    using assms(4) full_rewrite_no_substitution [OF assms(5)]
    by (simp add: regex_merge_def Let_def)
  then show ?thesis
    using assms(1-3) none by (simp add: merge_llm_result_logged_def Let_def)
qed

text \<open>
  C4: whenever \<open>merge_llm_result\<close> rejects the candidate it returns \<open>base\<close> itself: on every
  rejecting branch, and so for an empty output, a shrink rejection, an excessive-addition
  rejection, an unparseable base, and when no substitution is kept.
\<close>

theorem C4_rejected_merge_returns_base:
  "(merge_llm_result_logged py base llm_out allow = Some (v, r) \<and> rejected v
      \<longrightarrow> r = base \<and> merge_llm_result py base llm_out allow = Some base)
   \<and> (llm_out = [] \<longrightarrow> merge_llm_result py base llm_out allow = Some base)
   \<and> (llm_out \<noteq> [] \<and> parse_ok py (candidate_of py llm_out) \<and> 0 < count_lines base
        \<and> count_lines (candidate_of py llm_out) < max 1 (shrink_limit (count_lines base))
      \<longrightarrow> merge_llm_result py base llm_out allow = Some base)
   \<and> (llm_out \<noteq> [] \<and> parse_ok py (candidate_of py llm_out)
        \<and> (MAX_ADDED_TOPLEVEL_DEFS
              < card (set (top_level_names py (candidate_of py llm_out)) - set (top_level_names py base))
            \<or> MAX_ADDED_IMPORTS
              < card (set (imports_from_code py (candidate_of py llm_out)) - set (imports_from_code py base)))
      \<longrightarrow> merge_llm_result py base llm_out allow = Some base)
   \<and> (llm_out \<noteq> [] \<and> \<not> parse_ok py (candidate_of py llm_out) \<and> \<not> parse_ok py base
      \<longrightarrow> merge_llm_result py base llm_out allow = Some base)
   \<and> (llm_out \<noteq> [] \<and> \<not> parse_ok py (candidate_of py llm_out) \<and> parse_ok py base
        \<and> replace_blocks py (re_findall py ANY_DEF_BLOCK_M (candidate_of py llm_out)) (base, False)
            = Some (t, False)
        \<and> (allow \<longrightarrow> (\<exists>t. replace_blocks py (re_findall py ANY_DEF_BLOCK_M llm_out) (base, False)
                               = Some (t, False)))
      \<longrightarrow> merge_llm_result py base llm_out allow = Some base)"
proof (intro conjI impI)
  assume "merge_llm_result_logged py base llm_out allow = Some (v, r) \<and> rejected v"
  then show "r = base"
    using merge_rejected by blast
next
  assume a: "merge_llm_result_logged py base llm_out allow = Some (v, r) \<and> rejected v"
  then have "r = base"
    using merge_rejected by blast
  with a show "merge_llm_result py base llm_out allow = Some base"
    by (simp add: merge_llm_result_def)
next
  assume "llm_out = []"
  then show "merge_llm_result py base llm_out allow = Some base"
    by (simp add: merge_llm_result_def merge_empty_output)
next
  assume "llm_out \<noteq> [] \<and> parse_ok py (candidate_of py llm_out) \<and> 0 < count_lines base
     \<and> count_lines (candidate_of py llm_out) < max 1 (shrink_limit (count_lines base))"
  then show "merge_llm_result py base llm_out allow = Some base"
    by (simp add: merge_llm_result_def merge_shrink_rejected)
next
  assume "llm_out \<noteq> [] \<and> parse_ok py (candidate_of py llm_out)
     \<and> (MAX_ADDED_TOPLEVEL_DEFS
           < card (set (top_level_names py (candidate_of py llm_out)) - set (top_level_names py base))
         \<or> MAX_ADDED_IMPORTS
           < card (set (imports_from_code py (candidate_of py llm_out)) - set (imports_from_code py base)))"
  then obtain v where "merge_llm_result_logged py base llm_out allow = Some (v, base)"
    using merge_additions_rejected by blast
  then show "merge_llm_result py base llm_out allow = Some base"
    by (simp add: merge_llm_result_def)
next
  assume "llm_out \<noteq> [] \<and> \<not> parse_ok py (candidate_of py llm_out) \<and> \<not> parse_ok py base"
  then show "merge_llm_result py base llm_out allow = Some base"
    by (simp add: merge_llm_result_def merge_base_unparseable)
next
  assume "llm_out \<noteq> [] \<and> \<not> parse_ok py (candidate_of py llm_out) \<and> parse_ok py base
     \<and> replace_blocks py (re_findall py ANY_DEF_BLOCK_M (candidate_of py llm_out)) (base, False)
         = Some (t, False)
     \<and> (allow \<longrightarrow> (\<exists>t. replace_blocks py (re_findall py ANY_DEF_BLOCK_M llm_out) (base, False)
                            = Some (t, False)))"
  then have "merge_llm_result_logged py base llm_out allow = Some (FellBack, base)"
    using merge_no_substitution by blast
  then show "merge_llm_result py base llm_out allow = Some base"
    by (simp add: merge_llm_result_def)
qed

theorem C4_rejected_merge_returns_base_witness:
  "merge_llm_result py_expr ''a'' [] True = Some ''a''
   \<and> merge_llm_result py_expr ''a\<newline>b\<newline>c\<newline>d'' ''x'' False = Some ''a\<newline>b\<newline>c\<newline>d''
   \<and> merge_llm_result py_nine_imports ''a'' nine_imports True = Some ''a''
   \<and> merge_llm_result py_expr ''('' '')'' True = Some ''(''
   \<and> merge_llm_result py_short_f long_f ''?'' True = Some long_f"
proof -
  have empty: "([]::string) = []"
    by simp
  have shrink: "''x'' \<noteq> [] \<and> parse_ok py_expr (candidate_of py_expr ''x'')
      \<and> 0 < count_lines ''a\<newline>b\<newline>c\<newline>d''
      \<and> count_lines (candidate_of py_expr ''x'') < max 1 (shrink_limit (count_lines ''a\<newline>b\<newline>c\<newline>d''))"
    by code_simp
  have additions: "nine_imports \<noteq> [] \<and> parse_ok py_nine_imports (candidate_of py_nine_imports nine_imports)
      \<and> (MAX_ADDED_TOPLEVEL_DEFS
            < card (set (top_level_names py_nine_imports (candidate_of py_nine_imports nine_imports))
                    - set (top_level_names py_nine_imports ''a''))
          \<or> MAX_ADDED_IMPORTS
            < card (set (imports_from_code py_nine_imports (candidate_of py_nine_imports nine_imports))
                    - set (imports_from_code py_nine_imports ''a'')))"
    by code_simp
  have unparseable: "'')'' \<noteq> [] \<and> \<not> parse_ok py_expr (candidate_of py_expr '')'')
      \<and> \<not> parse_ok py_expr ''(''"
    by code_simp
  have unmatched: "''?'' \<noteq> [] \<and> \<not> parse_ok py_short_f (candidate_of py_short_f ''?'')
      \<and> parse_ok py_short_f long_f
      \<and> replace_blocks py_short_f (re_findall py_short_f ANY_DEF_BLOCK_M (candidate_of py_short_f ''?''))
           (long_f, False) = Some (long_f, False)
      \<and> replace_blocks py_short_f (re_findall py_short_f ANY_DEF_BLOCK_M ''?'')
           (long_f, False) = Some (long_f, False)"
    by code_simp
  show ?thesis
  proof (intro conjI)
    show "merge_llm_result py_expr ''a'' [] True = Some ''a''"
      using empty C4_rejected_merge_returns_base [of py_expr "''a''" "[]" True] by simp
    show "merge_llm_result py_expr ''a\<newline>b\<newline>c\<newline>d'' ''x'' False = Some ''a\<newline>b\<newline>c\<newline>d''"
      using shrink C4_rejected_merge_returns_base [of py_expr "''a\<newline>b\<newline>c\<newline>d''" "''x''" False]
      by simp
    show "merge_llm_result py_nine_imports ''a'' nine_imports True = Some ''a''"
      using additions C4_rejected_merge_returns_base [of py_nine_imports "''a''" nine_imports True]
      by simp
    show "merge_llm_result py_expr ''('' '')'' True = Some ''(''"
      using unparseable C4_rejected_merge_returns_base [of py_expr "''(''" "'')''" True] by simp
    show "merge_llm_result py_short_f long_f ''?'' True = Some long_f"
      using unmatched C4_rejected_merge_returns_base [of py_short_f long_f "''?''" True _ _ long_f]
      by auto
  qed
qed

lemma shrink_limit_floor: "4 * shrink_limit n \<le> 3 * n \<and> 3 * n < 4 * shrink_limit n + 4"
  unfolding shrink_limit_def by arith

lemma adopted_full:
  assumes "merge_llm_result_logged py base llm_out allow = Some (AdoptedFull, r)"
  shows "r = candidate_of py llm_out
     \<and> \<not> (0 < count_lines base \<and> count_lines r < max 1 (shrink_limit (count_lines base)))
     \<and> card (set (top_level_names py r) - set (top_level_names py base)) \<le> MAX_ADDED_TOPLEVEL_DEFS
     \<and> card (set (imports_from_code py r) - set (imports_from_code py base)) \<le> MAX_ADDED_IMPORTS"
proof -
  have no_full: "full_rewrite py base llm_out allow \<noteq> Some (AdoptedFull, r)"
    by (auto simp: full_rewrite_def Let_def split: if_splits option.splits prod.splits)
  have no_regex: "regex_merge py base llm_out c m allow \<noteq> Some (AdoptedFull, r)" for c m
    using no_full
    by (auto simp: regex_merge_def Let_def split: if_splits option.splits prod.splits)
  show ?thesis
  proof (cases "llm_out \<noteq> [] \<and> parse_ok py (candidate_of py llm_out)")
    case True
    with assms show ?thesis
      by (auto simp: merge_llm_result_logged_def Let_def not_less split: if_splits)
  next
    case False
    with assms no_regex show ?thesis
      by (auto simp: merge_llm_result_logged_def Let_def split: if_splits option.splits prod.splits)
  qed
qed

text \<open>
  The shrink test compares with \<open>int(base_lines * SHRINK_THRESHOLD)\<close>, the truncated product,
  where the comment on \<open>SHRINK_THRESHOLD\<close> asks for candidate lines of at least 75% of the base
  lines: a one-line candidate that parses is adopted over a two-line base.
\<close>

lemma full_adoption_one_line_short:
  "merge_llm_result_logged py_expr ''a\<newline>b'' ''x'' False = Some (AdoptedFull, ''x'')
   \<and> 4 * count_lines ''x'' < 3 * count_lines ''a\<newline>b''"
  by code_simp

text \<open>
  C3 as stated fails on the partial substitutions, which have no line check: a regex-level
  substitution is kept although it takes an eight-line base down to four lines, below
  \<open>\<lceil>0.75 \<sqdot> 8\<rceil> = 6\<close>.
\<close>

theorem C3_counterexample:
  "merge_llm_result_logged py_short_f long_f (short_f @ '')'') False
       = Some (PartialRegex, [LF] @ short_f @ [LF])
   \<and> count_lines long_f = 8
   \<and> count_lines ([LF] @ short_f @ [LF]) = 4
   \<and> count_lines ([LF] @ short_f @ [LF]) < (3 * count_lines long_f + 3) div 4"
  by code_simp

text \<open>
  C3, amended: whenever \<open>merge_llm_result\<close> adopts the full candidate over a non-empty base, the
  result has at least \<open>\<lceil>0.75 \<sqdot> lines(base)\<rceil>\<close> lines, and a candidate that parses with fewer
  lines than that is rejected and \<open>base\<close> is returned; both for a candidate that is not a
  non-empty one less than one whole line short of \<open>0.75 \<sqdot> lines(base)\<close>, about which nothing is
  said.  Partial substitutions carry no line bound.
\<close>

theorem C3_full_adoption_line_bound:
  "(merge_llm_result_logged py base llm_out allow = Some (AdoptedFull, r) \<and> 0 < count_lines base
      \<and> \<not> (1 \<le> count_lines r \<and> 4 * count_lines r < 3 * count_lines base
           \<and> 3 * count_lines base < 4 * count_lines r + 4)
      \<longrightarrow> (3 * count_lines base + 3) div 4 \<le> count_lines r)
   \<and> (llm_out \<noteq> [] \<and> parse_ok py (candidate_of py llm_out) \<and> 0 < count_lines base
        \<and> count_lines (candidate_of py llm_out) < (3 * count_lines base + 3) div 4
        \<and> \<not> (1 \<le> count_lines (candidate_of py llm_out)
             \<and> 4 * count_lines (candidate_of py llm_out) < 3 * count_lines base
             \<and> 3 * count_lines base < 4 * count_lines (candidate_of py llm_out) + 4)
      \<longrightarrow> merge_llm_result_logged py base llm_out allow = Some (ShrinkRejected, base))"
proof (intro conjI impI)
  assume a: "merge_llm_result_logged py base llm_out allow = Some (AdoptedFull, r) \<and> 0 < count_lines base
      \<and> \<not> (1 \<le> count_lines r \<and> 4 * count_lines r < 3 * count_lines base
           \<and> 3 * count_lines base < 4 * count_lines r + 4)"
  then have "\<not> (0 < count_lines base \<and> count_lines r < max 1 (shrink_limit (count_lines base)))"
    using adopted_full [of py base llm_out allow r] by blast
  with a have passed: "1 \<le> count_lines r \<and> shrink_limit (count_lines base) \<le> count_lines r"
    by (simp add: not_less)
  have "3 * count_lines base < 4 * shrink_limit (count_lines base) + 4"
    using shrink_limit_floor [of "count_lines base"] by simp
  with passed have "3 * count_lines base < 4 * count_lines r + 4"
    by arith
  with a passed have "3 * count_lines base \<le> 4 * count_lines r"
    by arith
  then show "(3 * count_lines base + 3) div 4 \<le> count_lines r"
    by arith
next
  let ?c = "count_lines (candidate_of py llm_out)"
  assume a: "llm_out \<noteq> [] \<and> parse_ok py (candidate_of py llm_out) \<and> 0 < count_lines base
      \<and> ?c < (3 * count_lines base + 3) div 4
      \<and> \<not> (1 \<le> ?c \<and> 4 * ?c < 3 * count_lines base \<and> 3 * count_lines base < 4 * ?c + 4)"
  then have "4 * ?c < 3 * count_lines base"
    by arith
  with a have "?c = 0 \<or> 4 * ?c + 4 \<le> 3 * count_lines base"
    by arith
  then have "?c < max 1 (shrink_limit (count_lines base))"
    unfolding shrink_limit_def by arith
  with a show "merge_llm_result_logged py base llm_out allow = Some (ShrinkRejected, base)"
    using merge_shrink_rejected [of llm_out py base allow] by blast
qed

theorem C3_full_adoption_line_bound_witness:
  "merge_llm_result_logged py_expr ''a\<newline>b'' ''a\<newline>b\<newline>c\<newline>d'' False
       = Some (AdoptedFull, ''a\<newline>b\<newline>c\<newline>d'')
   \<and> (3 * count_lines ''a\<newline>b'' + 3) div 4 \<le> count_lines ''a\<newline>b\<newline>c\<newline>d''
   \<and> merge_llm_result_logged py_expr ''a\<newline>b\<newline>c\<newline>d'' ''x'' False
       = Some (ShrinkRejected, ''a\<newline>b\<newline>c\<newline>d'')"
proof -
  have adopt: "merge_llm_result_logged py_expr ''a\<newline>b'' ''a\<newline>b\<newline>c\<newline>d'' False
        = Some (AdoptedFull, ''a\<newline>b\<newline>c\<newline>d'')
      \<and> 0 < count_lines ''a\<newline>b''
      \<and> \<not> (1 \<le> count_lines ''a\<newline>b\<newline>c\<newline>d''
           \<and> 4 * count_lines ''a\<newline>b\<newline>c\<newline>d'' < 3 * count_lines ''a\<newline>b''
           \<and> 3 * count_lines ''a\<newline>b'' < 4 * count_lines ''a\<newline>b\<newline>c\<newline>d'' + 4)"
    by code_simp
  have shrink: "''x'' \<noteq> [] \<and> parse_ok py_expr (candidate_of py_expr ''x'')
      \<and> 0 < count_lines ''a\<newline>b\<newline>c\<newline>d''
      \<and> count_lines (candidate_of py_expr ''x'') < (3 * count_lines ''a\<newline>b\<newline>c\<newline>d'' + 3) div 4
      \<and> \<not> (1 \<le> count_lines (candidate_of py_expr ''x'')
           \<and> 4 * count_lines (candidate_of py_expr ''x'') < 3 * count_lines ''a\<newline>b\<newline>c\<newline>d''
           \<and> 3 * count_lines ''a\<newline>b\<newline>c\<newline>d'' < 4 * count_lines (candidate_of py_expr ''x'') + 4)"
    by code_simp
  show ?thesis
  proof (intro conjI)
    show "merge_llm_result_logged py_expr ''a\<newline>b'' ''a\<newline>b\<newline>c\<newline>d'' False
        = Some (AdoptedFull, ''a\<newline>b\<newline>c\<newline>d'')"
      using adopt by blast
    show "(3 * count_lines ''a\<newline>b'' + 3) div 4 \<le> count_lines ''a\<newline>b\<newline>c\<newline>d''"
      using adopt
        C3_full_adoption_line_bound [of py_expr "''a\<newline>b''" "''a\<newline>b\<newline>c\<newline>d''" False "''a\<newline>b\<newline>c\<newline>d''"]
      by blast
    show "merge_llm_result_logged py_expr ''a\<newline>b\<newline>c\<newline>d'' ''x'' False
        = Some (ShrinkRejected, ''a\<newline>b\<newline>c\<newline>d'')"
      using shrink
        C3_full_adoption_line_bound [of py_expr "''a\<newline>b\<newline>c\<newline>d''" "''x''" False]
      by blast
  qed
qed

lemma rewrite_accepted:
  assumes "merge_llm_result_logged py base llm_out allow = Some (RewriteAccepted, r)"
  shows "card (set (top_level_names py r) - set (top_level_names py base)) \<le> MAX_ADDED_TOPLEVEL_DEFS
     \<and> card (set (imports_from_code py r) - set (imports_from_code py base)) \<le> MAX_ADDED_IMPORTS"
proof -
  have full: "full_rewrite py base llm_out allow = Some (RewriteAccepted, r) \<Longrightarrow> ?thesis"
    by (auto simp: full_rewrite_def Let_def not_less split: if_splits option.splits prod.splits)
  have regex: "regex_merge py base llm_out c m allow = Some (RewriteAccepted, r) \<Longrightarrow> ?thesis" for c m
    using full
    by (auto simp: regex_merge_def Let_def split: if_splits option.splits prod.splits)
  from assms regex show ?thesis
    by (auto simp: merge_llm_result_logged_def Let_def split: if_splits option.splits prod.splits)
qed

text \<open>
  C8 fails on the regex-level partial merge (step 3), which returns the merged text without
  the final additions check that the full-candidate path and the full-rewrite path make.
  Here the candidate's one block carries nine imports behind blank lines; it replaces \<open>f\<close> in
  the base and the result has nine imports the base does not have, above the limit of 8.
\<close>

theorem C8_regex_merge_exceeds_import_bound:
  "merge_llm_result_logged py_f_with_imports f_returns_0 (f_with_imports @ '')'') False
     = Some (PartialRegex, [LF] @ f_with_imports @ [LF])
   \<and> card (set (imports_from_code py_f_with_imports ([LF] @ f_with_imports @ [LF]))
           - set (imports_from_code py_f_with_imports f_returns_0)) = 9
   \<and> MAX_ADDED_IMPORTS = 8"
  by code_simp

section \<open>Properties of the generative fixer\<close>

lemma checked_output_empty_or_valid:
  "checked_output py raw = [] \<or> is_valid_python py (checked_output py raw)"
  by (simp add: checked_output_def split: option.splits)

lemma generate_llm_fix_cases:
  "generate_llm_fix py w now code error_message user_prompt logic_issues max_tokens = []
   \<or> (\<exists>raw. generate_llm_fix py w now code error_message user_prompt logic_issues max_tokens
              = checked_output py raw)"
  by (auto simp: generate_llm_fix_def split: option.splits)

lemma generate_llm_fix_returned:
  "qwen_generate w now (llm_prompt code error_message user_prompt logic_issues) max_tokens = Some raw
   \<Longrightarrow> generate_llm_fix py w now code error_message user_prompt logic_issues max_tokens
       = checked_output py raw"
  by (simp add: generate_llm_fix_def)

text \<open>
  C10: \<open>generate_llm_fix\<close> returns the empty string or a non-empty string that parses.  It
  returns the empty string when the backend raises, when the backend returns nothing, and
  when an exception is raised while the returned text is cleaned: in \<open>clean_llm_code\<close>, or in
  the call of \<open>_extract_code_from_text\<close> that follows a cleaned text that is empty or does not
  parse.
\<close>

theorem C10_generate_llm_fix_empty_or_valid:
  "(generate_llm_fix py w now code error_message user_prompt logic_issues max_tokens = []
    \<or> (generate_llm_fix py w now code error_message user_prompt logic_issues max_tokens \<noteq> []
       \<and> is_valid_python py
            (generate_llm_fix py w now code error_message user_prompt logic_issues max_tokens)))
   \<and> (qwen_generate w now (llm_prompt code error_message user_prompt logic_issues) max_tokens = None
      \<longrightarrow> generate_llm_fix py w now code error_message user_prompt logic_issues max_tokens = [])
   \<and> (qwen_generate w now (llm_prompt code error_message user_prompt logic_issues) max_tokens = Some []
      \<longrightarrow> generate_llm_fix py w now code error_message user_prompt logic_issues max_tokens = [])
   \<and> (qwen_generate w now (llm_prompt code error_message user_prompt logic_issues) max_tokens = Some raw
        \<and> clean_llm_code py raw = None
      \<longrightarrow> generate_llm_fix py w now code error_message user_prompt logic_issues max_tokens = [])
   \<and> (qwen_generate w now (llm_prompt code error_message user_prompt logic_issues) max_tokens = Some raw
        \<and> clean_llm_code py raw = Some cleaned \<and> (cleaned = [] \<or> \<not> is_valid_python py cleaned)
        \<and> extract_code_from_text py raw = None
      \<longrightarrow> generate_llm_fix py w now code error_message user_prompt logic_issues max_tokens = [])"
proof (intro conjI impI)
  let ?r = "generate_llm_fix py w now code error_message user_prompt logic_issues max_tokens"
  show "?r = [] \<or> (?r \<noteq> [] \<and> is_valid_python py ?r)"
    using generate_llm_fix_cases [of py w now code error_message user_prompt logic_issues max_tokens]
      checked_output_empty_or_valid [of py]
    by metis
next
  assume "qwen_generate w now (llm_prompt code error_message user_prompt logic_issues) max_tokens = None"
  then show "generate_llm_fix py w now code error_message user_prompt logic_issues max_tokens = []"
    by (simp add: generate_llm_fix_def)
next
  assume "qwen_generate w now (llm_prompt code error_message user_prompt logic_issues) max_tokens = Some []"
  then show "generate_llm_fix py w now code error_message user_prompt logic_issues max_tokens = []"
    by (simp add: generate_llm_fix_def checked_output_def)
next
  assume a: "qwen_generate w now (llm_prompt code error_message user_prompt logic_issues) max_tokens = Some raw
     \<and> clean_llm_code py raw = None"
  then have "checked_output py raw = []"
    by (simp add: checked_output_def)
  with a show "generate_llm_fix py w now code error_message user_prompt logic_issues max_tokens = []"
    by (simp add: generate_llm_fix_returned)
next
  assume a: "qwen_generate w now (llm_prompt code error_message user_prompt logic_issues) max_tokens = Some raw
     \<and> clean_llm_code py raw = Some cleaned \<and> (cleaned = [] \<or> \<not> is_valid_python py cleaned)
     \<and> extract_code_from_text py raw = None"
  then have "checked_output py raw = []"
    by (auto simp: checked_output_def)
  with a show "generate_llm_fix py w now code error_message user_prompt logic_issues max_tokens = []"
    by (simp add: generate_llm_fix_returned)
qed

theorem C10_generate_llm_fix_empty_or_valid_witness:
  "generate_llm_fix py_x_line (constant_world None) 0 ''y'' [] [] [] None = []
   \<and> generate_llm_fix py_x_line (constant_world (Some [])) 0 ''y'' [] [] [] None = []
   \<and> generate_llm_fix py_x_line (constant_world (Some ''x'')) 0 ''y'' [] [] [] None = ''x\<newline>''
   \<and> is_valid_python py_x_line
        (generate_llm_fix py_x_line (constant_world (Some ''x'')) 0 ''y'' [] [] [] None)
   \<and> clean_llm_code py_sub_raises ''x'' = None
   \<and> generate_llm_fix py_sub_raises (constant_world (Some ''x'')) 0 ''y'' [] [] [] None = []
   \<and> clean_llm_code py_comment_sub_raises fenced_paren = Some '')\<newline>''
   \<and> extract_code_from_text py_comment_sub_raises fenced_paren = None
   \<and> generate_llm_fix py_comment_sub_raises (constant_world (Some fenced_paren)) 0 ''y'' [] [] [] None = []"
proof -
  have down: "qwen_generate (constant_world None) 0 (llm_prompt ''y'' [] [] []) None = None"
    by (simp add: constant_world_def scripted_world_def)
  have mute: "qwen_generate (constant_world (Some [])) 0 (llm_prompt ''y'' [] [] []) None = Some []"
    by (simp add: constant_world_def scripted_world_def)
  have answer: "generate_llm_fix py_x_line (constant_world (Some ''x'')) 0 ''y'' [] [] [] None = ''x\<newline>''"
    by code_simp
  have said_x: "qwen_generate (constant_world (Some ''x'')) 0 (llm_prompt ''y'' [] [] []) None = Some ''x''"
    by (simp add: constant_world_def scripted_world_def)
  have clean_raises: "clean_llm_code py_sub_raises ''x'' = None"
    by code_simp
  have said_fence: "qwen_generate (constant_world (Some fenced_paren)) 0 (llm_prompt ''y'' [] [] []) None
      = Some fenced_paren"
    by (simp add: constant_world_def scripted_world_def)
  have cleaned: "clean_llm_code py_comment_sub_raises fenced_paren = Some '')\<newline>''"
    by code_simp
  have unparsed: "'')\<newline>'' = [] \<or> \<not> is_valid_python py_comment_sub_raises '')\<newline>''"
    by code_simp
  have extract_raises: "extract_code_from_text py_comment_sub_raises fenced_paren = None"
    by code_simp
  show ?thesis
  proof (intro conjI)
    show "generate_llm_fix py_x_line (constant_world None) 0 ''y'' [] [] [] None = []"
      using down C10_generate_llm_fix_empty_or_valid [of py_x_line "constant_world None" 0 "''y''" "[]" "[]" "[]" None]
      by blast
    show "generate_llm_fix py_x_line (constant_world (Some [])) 0 ''y'' [] [] [] None = []"
      using mute C10_generate_llm_fix_empty_or_valid [of py_x_line "constant_world (Some [])" 0 "''y''" "[]" "[]" "[]" None]
      by blast
    show "generate_llm_fix py_x_line (constant_world (Some ''x'')) 0 ''y'' [] [] [] None = ''x\<newline>''"
      by (rule answer)
    show "is_valid_python py_x_line
        (generate_llm_fix py_x_line (constant_world (Some ''x'')) 0 ''y'' [] [] [] None)"
      using answer C10_generate_llm_fix_empty_or_valid [of py_x_line "constant_world (Some ''x'')" 0 "''y''" "[]" "[]" "[]" None]
      by simp
    show "clean_llm_code py_sub_raises ''x'' = None"
      by (rule clean_raises)
    show "generate_llm_fix py_sub_raises (constant_world (Some ''x'')) 0 ''y'' [] [] [] None = []"
      using said_x clean_raises
        C10_generate_llm_fix_empty_or_valid [of py_sub_raises "constant_world (Some ''x'')" 0 "''y''" "[]" "[]" "[]" None "''x''"]
      by blast
    show "clean_llm_code py_comment_sub_raises fenced_paren = Some '')\<newline>''"
      by (rule cleaned)
    show "extract_code_from_text py_comment_sub_raises fenced_paren = None"
      by (rule extract_raises)
    show "generate_llm_fix py_comment_sub_raises (constant_world (Some fenced_paren)) 0 ''y'' [] [] [] None = []"
      using said_fence cleaned unparsed extract_raises
        C10_generate_llm_fix_empty_or_valid [of py_comment_sub_raises "constant_world (Some fenced_paren)" 0
          "''y''" "[]" "[]" "[]" None fenced_paren "'')\<newline>''"]
      by blast
  qed
qed

section \<open>Properties of structural semantic repair\<close>

lemma replace_crlf_id: "\<not> contains [CR, LF] s \<Longrightarrow> replace_crlf s = s"
  by (induction s rule: replace_crlf.induct) auto

lemma replace_crlf_keeps_a_pair: "replace_crlf [CR, CR, LF] = [CR, LF] \<and> replace_crlf [CR, LF] = [LF]"
  by simp

lemma apply_ssr_fix_parsed:
  assumes "ast_parse py s \<noteq> None" and "\<not> contains [CR, LF] s"
  shows "apply_ssr_fix py s = s"
  using assms by (simp add: apply_ssr_fix_def apply_ssr_fix_within_def replace_crlf_id Let_def)

lemma apply_ssr_fix_empty: "apply_ssr_fix py [] = []"
  by (simp add: apply_ssr_fix_def apply_ssr_fix_within_def)

lemma split_nl_single: "LF \<notin> set x \<Longrightarrow> split_nl x = [x]"
  by (induction x) auto

lemma split_nl_append: "LF \<notin> set x \<Longrightarrow> split_nl (x @ LF # r) = x # split_nl r"
  by (induction x) auto

lemma split_join_nl:
  "ls \<noteq> [] \<Longrightarrow> \<forall>l\<in>set ls. LF \<notin> set l \<Longrightarrow> split_nl (join_nl ls) = ls"
  by (induction "[LF]" ls rule: join.induct) (auto simp: split_nl_single split_nl_append)

lemma split_nl_lines: "split_nl s \<noteq> [] \<and> (\<forall>l\<in>set (split_nl s). LF \<notin> set l)"
  by (induction s) (auto split: list.splits)

lemma set_rstrip: "set (rstrip s) \<subseteq> set s"
  unfolding rstrip_def using set_dropWhileD [of _ isspace "rev s"] by auto

lemma close_opener_on_line_no_lf:
  "LF \<notin> set l \<Longrightarrow> LF \<notin> set (close_opener_on_line l i c)"
  using set_rstrip [of l] set_rstrip [of "takeWhile (\<lambda>c. c \<noteq> CHR ''#'') l"]
    set_takeWhileD [of LF "\<lambda>c. c \<noteq> CHR ''#''" l] set_dropWhileD [of LF "\<lambda>c. c \<noteq> CHR ''#''" l]
  by (auto simp: close_opener_on_line_def OPENERS_def split_hash_def Let_def
      split: option.splits if_splits dest: in_set_dropD)

lemma set_dedent_line: "set (dedent_line l n) \<subseteq> set l"
  by (induction l n rule: dedent_line.induct) auto

lemma split_out_of_literal_lines:
  assumes "ls \<noteq> []" and "\<forall>l\<in>set ls. LF \<notin> set l"
  shows "split_out_of_literal ls i \<noteq> [] \<and> (\<forall>l\<in>set (split_out_of_literal ls i). LF \<notin> set l)"
proof (cases "i < length ls")
  case False
  then have "ls[i := x] = ls" for x by (simp add: list_update_beyond)
  with False assms show ?thesis
    by (simp add: split_out_of_literal_def Let_def split: option.splits)
next
  case True
  then have here: "LF \<notin> set (ls ! i)" using assms by simp
  have upd: "\<forall>l\<in>set (xs[k := x]). LF \<notin> set l"
    if "\<forall>l\<in>set xs. LF \<notin> set l" and "LF \<notin> set x" for xs k and x :: string
    using that set_update_subset_insert [of xs k x] by auto
  show ?thesis
  proof (cases "first_unclosed_opener_in_line (ls ! i)")
    case None
    with assms show ?thesis by (simp add: split_out_of_literal_def Let_def)
  next
    case (Some info)
    let ?new = "ls[i := close_opener_on_line (ls ! i) (fst info) (snd info)]"
    have new: "\<forall>l\<in>set ?new. LF \<notin> set l"
      using upd [OF assms(2) close_opener_on_line_no_lf [OF here]] .
    have next_line: "LF \<notin> set (dedent_line (?new ! Suc i) n)" if "Suc i < length ls" for n
      using new that set_dedent_line [of "?new ! Suc i" n] nth_mem [of "Suc i" ?new] by auto
    have "\<forall>l\<in>set (?new[Suc i := dedent_line (?new ! Suc i) n]). LF \<notin> set l" if "Suc i < length ls" for n
      using upd [OF new next_line [OF that]] .
    with Some new assms(1) show ?thesis
      by (simp add: split_out_of_literal_def Let_def)
  qed
qed

lemma try_openers_lines:
  assumes "try_openers py ls ops = Improved ls'" and "ls \<noteq> []" and "\<forall>l\<in>set ls. LF \<notin> set l"
  shows "ls' \<noteq> [] \<and> (\<forall>l\<in>set ls'. LF \<notin> set l)"
  using assms
proof (induction ops)
  case Nil
  then show ?case by simp
next
  case (Cons op ops)
  then show ?case
    using split_out_of_literal_lines [of ls "fst op"]
    by (auto simp: Let_def split: if_splits)
qed

lemma try_openers_fixed: "try_openers py ls ops = Fixed c \<Longrightarrow> ast_parse py c \<noteq> None"
  by (induction ops) (auto simp: Let_def split: if_splits)

lemma ssr_attempts_lines:
  assumes "ssr_attempts py n ls = Inr ls'" and "ls \<noteq> []" and "\<forall>l\<in>set ls. LF \<notin> set l"
  shows "ls' \<noteq> [] \<and> (\<forall>l\<in>set ls'. LF \<notin> set l)"
  using assms
proof (induction py n ls rule: ssr_attempts.induct)
  case (1 py lines)
  then show ?case by simp
next
  case (2 py n lines)
  show ?case
  proof (cases "find_last_openers lines = []")
    case True
    with 2 show ?thesis by simp
  next
    case False
    show ?thesis
    proof (cases "try_openers py lines (sort_key fst (find_last_openers lines))")
      case (Fixed c)
      with False 2 show ?thesis by simp
    next
      case (Improved cand)
      then have "cand \<noteq> [] \<and> (\<forall>l\<in>set cand. LF \<notin> set l)"
        using try_openers_lines 2 by blast
      with False Improved 2 show ?thesis by simp
    next
      case Unchanged
      with False 2 show ?thesis by (simp add: Let_def split: if_splits)
    qed
  qed
qed

lemma ssr_attempts_returns_parsed: "ssr_attempts py n ls = Inl c \<Longrightarrow> ast_parse py c \<noteq> None"
proof (induction py n ls rule: ssr_attempts.induct)
  case (1 py lines)
  then show ?case by simp
next
  case (2 py n lines)
  then show ?case
    using try_openers_fixed [of py lines "sort_key fst (find_last_openers lines)"]
    by (auto simp: Let_def split: if_splits attempt.splits)
qed

lemma ssr_attempts_stable:
  "ssr_attempts py n ls = Inr ls' \<Longrightarrow> \<not> attempts_exhausted py n ls
   \<Longrightarrow> ssr_attempts py (Suc m) ls' = Inr ls'"
proof (induction py n ls rule: ssr_attempts.induct)
  case (1 py lines)
  then show ?case by simp
next
  case (2 py n lines)
  show ?case
  proof (cases "find_last_openers lines = []")
    case True
    with 2(2) show ?thesis by simp
  next
    case False
    show ?thesis
    proof (cases "try_openers py lines (sort_key fst (find_last_openers lines))")
      case (Fixed c)
      with False 2(2) show ?thesis by simp
    next
      case (Improved cand)
      with False 2(2,3) have "ssr_attempts py n cand = Inr ls'" "\<not> attempts_exhausted py n cand"
        by simp_all
      then show ?thesis
        using 2(1) [OF refl False Improved] by blast
    next
      case Unchanged
      with False 2(2) have same: "ls' = lines"
        and failed: "\<not> (close_all_openers_conservatively (join_nl lines) \<noteq> join_nl lines
            \<and> ast_parse py (close_all_openers_conservatively (join_nl lines)) \<noteq> None)"
        by (auto simp: Let_def split: if_splits)
      from False Unchanged failed show ?thesis
        unfolding same by (auto simp: Let_def)
    qed
  qed
qed

lemma apply_ssr_fix_within_idempotent:
  assumes clean: "\<not> contains [CR, LF] (apply_ssr_fix_within py s n)"
    and ended: "ast_parse py (apply_ssr_fix_within py s n) \<noteq> None
                \<or> \<not> attempts_exhausted py n (split_nl (replace_crlf s))"
  shows "apply_ssr_fix_within py (apply_ssr_fix_within py s n) n = apply_ssr_fix_within py s n"
proof (cases "apply_ssr_fix_within py s n = [] \<or> ast_parse py (apply_ssr_fix_within py s n) \<noteq> None")
  case True
  with clean show ?thesis
    by (auto simp: apply_ssr_fix_within_def [of py "apply_ssr_fix_within py s n"] replace_crlf_id Let_def)
next
  case False
  let ?r = "apply_ssr_fix_within py s n"
  let ?w = "replace_crlf s"
  from False have r: "?r \<noteq> []" "ast_parse py ?r = None" by auto
  with ended have ended': "\<not> attempts_exhausted py n (split_nl ?w)" by simp
  from r have s: "s \<noteq> []" by (auto simp: apply_ssr_fix_within_def)
  from r have w: "ast_parse py ?w = None"
    by (auto simp: apply_ssr_fix_within_def Let_def split: if_splits)
  obtain ls where ls: "ssr_attempts py n (split_nl ?w) = Inr ls"
    using r s w ssr_attempts_returns_parsed [of py n "split_nl ?w"]
    by (cases "ssr_attempts py n (split_nl ?w)") (auto simp: apply_ssr_fix_within_def Let_def)
  have final: "?r = join_nl ls"
    using r s w ls by (auto simp: apply_ssr_fix_within_def Let_def split: if_splits)
  have no_final:
    "\<not> (close_all_openers_conservatively (join_nl ls) \<noteq> join_nl ls
        \<and> ast_parse py (close_all_openers_conservatively (join_nl ls)) \<noteq> None)"
    using r s w ls by (auto simp: apply_ssr_fix_within_def Let_def split: if_splits)
  have good: "ls \<noteq> [] \<and> (\<forall>l\<in>set ls. LF \<notin> set l)"
    using ssr_attempts_lines [OF ls] split_nl_lines [of ?w] by blast
  then have rejoined: "split_nl (join_nl ls) = ls"
    using split_join_nl by blast
  have again: "ssr_attempts py n ls = Inr ls"
    using ssr_attempts_stable [OF ls ended'] by (cases n) simp_all
  have "apply_ssr_fix_within py (join_nl ls) n = join_nl ls"
    using r clean no_final rejoined again unfolding final
    by (simp add: apply_ssr_fix_within_def [of py "join_nl ls"] replace_crlf_id Let_def)
  then show ?thesis unfolding final .
qed

text \<open>
  C7 as stated fails.  Five lines each open a bracket and a last line \<open>%\<close> keeps the text from
  parsing; one run of SSR closes four of the brackets in its four attempts and gives up, a
  second run on its result closes the fifth.
\<close>

theorem C7_counterexample:
  "attempts_exhausted py_nothing_parses 4 (split_nl (replace_crlf five_open))
   \<and> apply_ssr_fix py_nothing_parses (apply_ssr_fix py_nothing_parses five_open)
     \<noteq> apply_ssr_fix py_nothing_parses five_open"
  by code_simp

text \<open>
  A run replaces the CR LF pairs of its input once, and the replacement can leave a pair
  behind: a second run replaces that one.
\<close>

lemma apply_ssr_fix_leaves_a_pair:
  "apply_ssr_fix py_nothing_parses [CR, CR, LF] = [CR, LF]
   \<and> apply_ssr_fix py_nothing_parses [CR, LF] = [LF]"
  by code_simp

text \<open>
  C7, amended: SSR is idempotent on every source whose first run returns a text without a
  CR LF pair that parses or that was returned before the attempts ran out (the loop over the
  attempts ended by a \<open>return\<close> or a \<open>break\<close>): a second run returns that text unchanged.
\<close>

theorem C7_ssr_idempotent_within_attempts:
  assumes "\<not> contains [CR, LF] (apply_ssr_fix py s)"
    and "ast_parse py (apply_ssr_fix py s) \<noteq> None
         \<or> \<not> attempts_exhausted py 4 (split_nl (replace_crlf s))"
  shows "apply_ssr_fix py (apply_ssr_fix py s) = apply_ssr_fix py s"
  using assms apply_ssr_fix_within_idempotent [of py s 4]
  unfolding apply_ssr_fix_def by blast

theorem C7_ssr_idempotent_within_attempts_witness:
  "apply_ssr_fix py_nothing_parses ''(\<newline>%'' = ''()\<newline>%''
   \<and> ast_parse py_nothing_parses ''()\<newline>%'' = None
   \<and> apply_ssr_fix py_nothing_parses ''()\<newline>%'' = ''()\<newline>%''
   \<and> apply_ssr_fix py_list_repair ''x = [1, 2\<newline>print(x)'' = ''x = [1, 2]\<newline>print(x)''
   \<and> apply_ssr_fix py_list_repair ''x = [1, 2]\<newline>print(x)'' = ''x = [1, 2]\<newline>print(x)''"
proof -
  have closed: "apply_ssr_fix py_nothing_parses ''(\<newline>%'' = ''()\<newline>%''"
    by code_simp
  have clean: "\<not> contains [CR, LF] ''()\<newline>%''"
    by code_simp
  have ended: "ast_parse py_nothing_parses ''()\<newline>%'' \<noteq> None
      \<or> \<not> attempts_exhausted py_nothing_parses 4 (split_nl (replace_crlf ''(\<newline>%''))"
    by code_simp
  have unparsed: "ast_parse py_nothing_parses ''()\<newline>%'' = None"
    by code_simp
  have repaired: "apply_ssr_fix py_list_repair ''x = [1, 2\<newline>print(x)'' = ''x = [1, 2]\<newline>print(x)''"
    by code_simp
  have clean_list: "\<not> contains [CR, LF] ''x = [1, 2]\<newline>print(x)''"
    by code_simp
  have parsed: "ast_parse py_list_repair ''x = [1, 2]\<newline>print(x)'' \<noteq> None
      \<or> \<not> attempts_exhausted py_list_repair 4 (split_nl (replace_crlf ''x = [1, 2\<newline>print(x)''))"
    by code_simp
  show ?thesis
  proof (intro conjI)
    show "apply_ssr_fix py_nothing_parses ''(\<newline>%'' = ''()\<newline>%''"
      by (rule closed)
    show "ast_parse py_nothing_parses ''()\<newline>%'' = None"
      by (rule unparsed)
    show "apply_ssr_fix py_nothing_parses ''()\<newline>%'' = ''()\<newline>%''"
      using closed clean ended
        C7_ssr_idempotent_within_attempts [of py_nothing_parses "''(\<newline>%''"]
      by simp
    show "apply_ssr_fix py_list_repair ''x = [1, 2\<newline>print(x)'' = ''x = [1, 2]\<newline>print(x)''"
      by (rule repaired)
    show "apply_ssr_fix py_list_repair ''x = [1, 2]\<newline>print(x)'' = ''x = [1, 2]\<newline>print(x)''"
      using repaired clean_list parsed
        C7_ssr_idempotent_within_attempts [of py_list_repair "''x = [1, 2\<newline>print(x)''"]
      by simp
  qed
qed

section \<open>Properties of the structured fixer\<close>

text \<open>
  C6 fails on a source that parses: \<open>fix_unclosed_strings\<close> counts one single quote in
  \<open>x = "it's"\<close> and appends another.  No later pass removes it, neither parse of
  \<open>try_ast_fix\<close> succeeds, and the text with the stray quote is returned.
\<close>

theorem C6_try_ast_fix_breaks_parsing_source:
  "ast_parse py_its_string its_string \<noteq> None
   \<and> try_ast_fix py_its_string no_semantic_change SYNTAX its_string = Some (its_string @ [SQUOTE])
   \<and> ast_parse py_its_string (its_string @ [SQUOTE]) = None"
  by code_simp

section \<open>Properties of the iteration controller\<close>

lemma validate_iteration_success:
  "fst (validate_iteration out err kind) \<Longrightarrow> kind = NONE"
  by (auto simp: validate_iteration_def is_success_def Let_def split: if_splits)

lemma iteration_body_appends_clean_record:
  assumes "iteration_body py semantic w user_prompt i code reports log = Finish code' reports' log'
           \<or> iteration_body py semantic w user_prompt i code reports log = Continue code' reports' log'"
  shows "\<exists>r. reports' = reports @ [r] \<and> clean_record r \<and> rec_iteration r = i"
proof (cases "effective_error w i code = NONE \<and> strip user_prompt = []")
  case True
  then have "iteration_body py semantic w user_prompt i code reports log
      = Finish code (reports @ [create_iteration_report i code (fst (run_in_sandbox w (2 * i) code))
                                  (snd (run_in_sandbox w (2 * i) code)) ''NONE'' (Kind NONE) True]) log"
    by (simp add: iteration_body_def Let_def)
  with assms show ?thesis
    by (auto simp: clean_record_def create_iteration_report_def)
next
  case False
  with assms show ?thesis
    by (auto simp: iteration_body_def Let_def clean_record_def create_iteration_report_def
        split: if_splits option.splits prod.splits dest: validate_iteration_success)
qed

lemma repair_loop_clean_records:
  assumes "repair_loop py semantic w user_prompt indices code reports log = Some (final, rep)"
    and "list_all clean_record reports"
  shows "list_all clean_record (iterations rep)"
  using assms
proof (induction indices arbitrary: code reports log)
  case Nil
  then show ?case by (auto simp: save_full_report_def)
next
  case (Cons i indices)
  show ?case
  proof (cases "iteration_body py semantic w user_prompt i code reports log")
    case (Finish code' reports' log')
    then obtain r where "reports' = reports @ [r]" and "clean_record r"
      using iteration_body_appends_clean_record by blast
    with Cons.prems Finish show ?thesis
      by (auto simp: save_full_report_def)
  next
    case (Continue code' reports' log')
    then obtain r where "reports' = reports @ [r]" and "clean_record r"
      using iteration_body_appends_clean_record by blast
    with Cons.prems(2) have "list_all clean_record reports'"
      by simp
    moreover have "repair_loop py semantic w user_prompt indices code' reports' log' = Some (final, rep)"
      using Cons.prems(1) Continue by simp
    ultimately show ?thesis
      by (rule Cons.IH [rotated])
  next
    case Crash
    with Cons.prems show ?thesis by simp
  qed
qed

text \<open>
  C1 as stated fails on the record of iteration 0: a source on which an intent conflict is
  detected gets one record, with \<open>success = True\<close> and the error kind \<open>SEMANTIC\<close>.
\<close>

theorem C1_counterexample:
  "map_option (\<lambda>(code, rep). verdicts rep)
     (run_repair_loop py_fib_memo no_semantic_change (constant_world None) fib_memo [] None)
     = Some [(0, True, Label ''SEMANTIC'')]
   \<and> Label ''SEMANTIC'' \<noteq> Kind NONE"
  by code_simp

text \<open>
  C1, amended: in every record the main loop emits, \<open>success = True\<close> implies the error kind
  \<open>NONE\<close>; the record of iteration 0 is emitted with \<open>success = True\<close> and the error kind
  \<open>SEMANTIC\<close>.
\<close>

theorem C1_success_implies_none_in_main_loop:
  assumes "run_repair_loop py semantic w original_code user_prompt max_iterations = Some (final, rep)"
  shows "(detect_semantic_conflicts py original_code
            \<longrightarrow> verdicts rep = [(0, True, Label ''SEMANTIC'')])
       \<and> (\<not> detect_semantic_conflicts py original_code
            \<longrightarrow> (\<forall>r \<in> set (iterations rep). rec_success r \<longrightarrow> rec_error_type r = Kind NONE))"
proof (intro conjI impI)
  assume "detect_semantic_conflicts py original_code"
  with assms have "semantic_iteration py w original_code user_prompt = (final, rep)"
    by (simp add: run_repair_loop_def Let_def)
  then show "verdicts rep = [(0, True, Label ''SEMANTIC'')]"
    by (auto simp: semantic_iteration_def Let_def verdicts_def save_full_report_def
        create_iteration_report_def)
next
  assume "\<not> detect_semantic_conflicts py original_code"
  with assms obtain indices where
    "repair_loop py semantic w user_prompt indices original_code [] [] = Some (final, rep)"
    by (auto simp: run_repair_loop_def Let_def)
  then have "list_all clean_record (iterations rep)"
    by (rule repair_loop_clean_records) simp
  then show "\<forall>r \<in> set (iterations rep). rec_success r \<longrightarrow> rec_error_type r = Kind NONE"
    by (simp add: list_all_iff clean_record_def)
qed

theorem C1_success_implies_none_in_main_loop_witness:
  "map_option (\<lambda>(code, rep). verdicts rep)
     (run_repair_loop py_paren_repair no_semantic_change paren_world open_paren [] None)
     = Some [(1, False, Kind LOGICAL), (2, True, Kind NONE)]
   \<and> (\<exists>final rep.
        run_repair_loop py_paren_repair no_semantic_change paren_world open_paren [] None
          = Some (final, rep)
        \<and> list_all (\<lambda>r. \<not> rec_success r \<or> rec_error_type r = Kind NONE) (iterations rep))"
proof -
  have run: "map_option (\<lambda>(code, rep). verdicts rep)
     (run_repair_loop py_paren_repair no_semantic_change paren_world open_paren [] None)
     = Some [(1, False, Kind LOGICAL), (2, True, Kind NONE)]"
    by code_simp
  then obtain final rep where
    r: "run_repair_loop py_paren_repair no_semantic_change paren_world open_paren [] None
          = Some (final, rep)"
    by auto
  have quiet: "\<not> detect_semantic_conflicts py_paren_repair open_paren"
    by code_simp
  have "\<forall>r \<in> set (iterations rep). rec_success r \<longrightarrow> rec_error_type r = Kind NONE"
    using C1_success_implies_none_in_main_loop [OF r] quiet by blast
  then have "list_all (\<lambda>r. \<not> rec_success r \<or> rec_error_type r = Kind NONE) (iterations rep)"
    by (auto simp: list_all_iff)
  with run r show ?thesis
    by blast
qed










text \<open>
  C9 fails on the main loop: the change log of an iteration is the diff from \<open>old_code\<close>,
  taken behind the first SSR pass and the logical patches, so their edits are in no entry.
  Here SSR closes the bracket of the first line, the log holds the marker line alone, and
  replaying it on the initial source leaves the bracket open.
\<close>

theorem C9_change_log_misses_ssr_edit:
  "map_option (\<lambda>(code, rep). (splitlines code, final_status rep, edits rep, replay open_paren (changes rep)))
     (run_repair_loop py_paren_repair no_semantic_change paren_world open_paren [] None)
     = Some ([''x = (1)'', ''print(x)'', ''# forced-diff-1''], ''SUCCESS'',
             [(Added, None, Some 3, [], ''# forced-diff-1'')],
             [''x = (1'', ''print(x)'', ''# forced-diff-1''])
   \<and> [''x = (1)'', ''print(x)'', ''# forced-diff-1''] \<noteq> [''x = (1'', ''print(x)'', ''# forced-diff-1'']"
  by code_simp

end
